theory Spec2Isabelle
  imports Complex_Main "HOL-Library.Word" "HOL-Library.Log_Nat"
begin

section \<open>Machine arithmetic\<close>

text \<open>
  \<^verbatim>\<open>int\<close> and \<^verbatim>\<open>LONG\<close> are 32-bit two's-complement integers on the program's
  platform. They are modelled as mathematical integers with the wrap-around written out:
  \<open>wrap32\<close> maps any integer to its representative in \<open>[-2^31, 2^31)\<close>.
\<close>

definition wrap32 :: "int \<Rightarrow> int" where
  "wrap32 v = (v + 2147483648) mod 4294967296 - 2147483648"

text \<open>C++ integer division truncates towards zero.\<close>

definition trunc_div :: "int \<Rightarrow> int \<Rightarrow> int" where
  "trunc_div a b = sgn a * sgn b * (\<bar>a\<bar> div \<bar>b\<bar>)"

section \<open>Floating-point arithmetic\<close>

text \<open>
  A \<^verbatim>\<open>float\<close> is an IEEE 754 binary32 number and a \<^verbatim>\<open>double\<close> a binary64 number. A
  finite floating-point number is modelled as the real it denotes, and every floating-point
  operation as the exact operation followed by rounding to the nearest representable
  number, ties to the even significand, as the program's target computes it (one rounding
  per operation, no fused operations). A result beyond the largest finite number, which
  the program's values do not reach, is not modelled as an infinity.

  \<open>pow2 e\<close> is \<open>2\<close> to the power \<open>e\<close>; \<open>binade x\<close> is the exponent \<open>e\<close> with
  \<open>2 ^ e \<le> \<bar>x\<bar> < 2 ^ (e + 1)\<close>, computed from the bit length of the integer part of
  \<open>\<bar>x\<bar>\<close> or of its reciprocal; \<open>rne\<close> rounds a real to the nearest integer, ties to even.
\<close>

definition pow2 :: "int \<Rightarrow> real" where
  "pow2 e = (if 0 \<le> e then 2 ^ nat e else 1 / 2 ^ nat (- e))"

definition binade :: "real \<Rightarrow> int" where
  "binade x =
     (if 1 \<le> \<bar>x\<bar> then bitlen \<lfloor>\<bar>x\<bar>\<rfloor> - 1 else - bitlen (\<lceil>1 / \<bar>x\<bar>\<rceil> - 1))"

definition rne :: "real \<Rightarrow> int" where
  "rne r =
     (if r - of_int \<lfloor>r\<rfloor> < 1 / 2 then \<lfloor>r\<rfloor>
      else if 1 / 2 < r - of_int \<lfloor>r\<rfloor> then \<lfloor>r\<rfloor> + 1
      else if even \<lfloor>r\<rfloor> then \<lfloor>r\<rfloor> else \<lfloor>r\<rfloor> + 1)"

text \<open>
  Rounding to a binary format with \<open>p\<close> significand bits and least normal exponent
  \<open>emin\<close>: the spacing of the format's numbers around \<open>x\<close> is
  \<open>2 ^ (max (binade x) emin - (p - 1))\<close>, and \<open>x\<close> is rounded to a multiple of it.
\<close>

definition round_binary :: "int \<Rightarrow> int \<Rightarrow> real \<Rightarrow> real" where
  "round_binary p emin x =
     (if x = 0 then 0
      else sgn x * of_int (rne (\<bar>x\<bar> / pow2 (max (binade x) emin - (p - 1))))
             * pow2 (max (binade x) emin - (p - 1)))"

definition f32 :: "real \<Rightarrow> real" where
  "f32 x = round_binary 24 (- 126) x"

definition f64 :: "real \<Rightarrow> real" where
  "f64 x = round_binary 53 (- 1022) x"

section \<open>Data model\<close>

type_synonym BYTE = "8 word"

text \<open>A handle is an address; \<open>0\<close> is \<^verbatim>\<open>nullptr\<close>.\<close>

type_synonym handle = nat

record POINT =
  pt_x :: int
  pt_y :: int

text \<open>
  A \<^verbatim>\<open>steady_clock::time_point\<close> is a count of clock ticks; the ticks are nanoseconds.
\<close>

type_synonym time_point = int

record Sample =
  s_pt :: POINT
  s_t :: time_point

text \<open>
  The launch arguments, which are globals of the program. The two \<^verbatim>\<open>float\<close>s hold
  binary32 numbers: the initial sensitivity is the literal \<^verbatim>\<open>0.03f\<close>, the binary32 number
  nearest to 0.03.
\<close>

record config =
  gSensitivity :: real
  gTrailFadeMs :: real
  gTrailMaxAlpha :: BYTE
  TintR :: BYTE
  TintG :: BYTE
  TintB :: BYTE

definition default_config :: config where
  "default_config =
     \<lparr>gSensitivity = f32 (3 / 100), gTrailFadeMs = 50, gTrailMaxAlpha = 10,
      TintR = 255, TintG = 255, TintB = 255\<rparr>"

definition kMaxTrailSize :: nat where
  "kMaxTrailSize = 500"

section \<open>UpdateTrail\<close>

text \<open>
  \<^verbatim>\<open>duration_cast<milliseconds>(now - t).count()\<close>: the whole milliseconds in a
  difference of two time points, truncated towards zero.
\<close>

definition age_ms :: "time_point \<Rightarrow> time_point \<Rightarrow> int" where
  "age_ms now ts = trunc_div (now - ts) 1000000"

text \<open>The \<^verbatim>\<open>int\<close> expression \<^verbatim>\<open>dx * dx + dy * dy\<close> of \<^verbatim>\<open>UpdateTrail\<close>.\<close>

definition sq_dist32 :: "POINT \<Rightarrow> POINT \<Rightarrow> int" where
  "sq_dist32 ptNow p =
     (let dx = wrap32 (pt_x ptNow - pt_x p);
          dy = wrap32 (pt_y ptNow - pt_y p)
      in wrap32 (wrap32 (dx * dx) + wrap32 (dy * dy)))"

text \<open>The value of the local \<^verbatim>\<open>add\<close> when the \<^verbatim>\<open>if (add)\<close> is reached.\<close>

definition should_add :: "Sample list \<Rightarrow> POINT \<Rightarrow> bool" where
  "should_add trail ptNow =
     (if trail = [] then True else sq_dist32 ptNow (s_pt (last trail)) \<ge> 1)"

text \<open>\<^verbatim>\<open>push_back\<close>, then \<^verbatim>\<open>pop_front\<close> when the size exceeds the cap.\<close>

definition push_sample :: "Sample list \<Rightarrow> POINT \<Rightarrow> time_point \<Rightarrow> Sample list" where
  "push_sample trail ptNow now =
     (let tr = trail @ [\<lparr>s_pt = ptNow, s_t = now\<rparr>]
      in if length tr > kMaxTrailSize then tl tr else tr)"

text \<open>
  The test \<^verbatim>\<open>count() > (gTrailFadeMs + 50.f)\<close> of the eviction loops: the sum is a
  \<^verbatim>\<open>float\<close> addition, and the count of whole milliseconds is converted to \<^verbatim>\<open>float\<close> for
  the comparison.
\<close>

definition expired :: "config \<Rightarrow> time_point \<Rightarrow> Sample \<Rightarrow> bool" where
  "expired cfg now s =
     (f32 (real_of_int (age_ms now (s_t s))) > f32 (gTrailFadeMs cfg + 50))"

text \<open>The \<^verbatim>\<open>while\<close> loop that pops expired samples off the front.\<close>

fun evict :: "config \<Rightarrow> time_point \<Rightarrow> Sample list \<Rightarrow> Sample list" where
  "evict cfg now [] = []"
| "evict cfg now (s # ss) =
     (if expired cfg now s then evict cfg now ss else s # ss)"

definition UpdateTrail :: "config \<Rightarrow> Sample list \<Rightarrow> POINT \<Rightarrow> time_point \<Rightarrow> Sample list" where
  "UpdateTrail cfg trail ptNow now =
     evict cfg now (if should_add trail ptNow then push_sample trail ptNow now else trail)"

text \<open>The mathematical squared distance between two points.\<close>

definition sq_dist :: "POINT \<Rightarrow> POINT \<Rightarrow> int" where
  "sq_dist a b = (pt_x a - pt_x b) * (pt_x a - pt_x b) + (pt_y a - pt_y b) * (pt_y a - pt_y b)"

section \<open>RefreshCursorVisual\<close>

record CursorVisual =
  hCur :: handle
  width :: int
  height :: int
  hotX :: int
  hotY :: int

text \<open>The fields of \<^verbatim>\<open>CURSORINFO\<close> that the program reads.\<close>

record CURSORINFO =
  flags :: int
  hCursor :: handle

definition CURSOR_SHOWING :: int where
  "CURSOR_SHOWING = 1"

text \<open>
  What \<^verbatim>\<open>GetObject\<close> writes into the \<^verbatim>\<open>BITMAP\<close> for a bitmap handle. A failed
  \<^verbatim>\<open>GetObject\<close> leaves the zero-initialised structure, both fields 0.
\<close>

record BITMAP =
  bmWidth :: int
  bmHeight :: int

text \<open>
  \<^verbatim>\<open>ICONINFO\<close>: the hotspot (two \<^verbatim>\<open>DWORD\<close>s) and the two bitmap handles, each
  \<open>None\<close> when the handle is null and otherwise the \<^verbatim>\<open>BITMAP\<close> that \<^verbatim>\<open>GetObject\<close>
  reports for it.
\<close>

record ICONINFO =
  xHotspot :: int
  yHotspot :: int
  hbmMask :: "BITMAP option"
  hbmColor :: "BITMAP option"

text \<open>
  \<^verbatim>\<open>GetIconInfo\<close> is a service of the operating system: a function from the cursor handle
  to the icon information, \<open>None\<close> when the call fails.
\<close>

definition RefreshCursorVisual ::
  "(handle \<Rightarrow> ICONINFO option) \<Rightarrow> CursorVisual \<Rightarrow> CURSORINFO \<Rightarrow> CursorVisual" where
  "RefreshCursorVisual GetIconInfo cv ci =
     (if hCursor ci = hCur cv then cv
      else
        let cv1 = cv\<lparr>hCur := hCursor ci\<rparr>
        in case GetIconInfo (hCur cv1) of
             None \<Rightarrow> cv1
           | Some ii \<Rightarrow>
               let bm = (case hbmColor ii of
                           Some b \<Rightarrow> b
                         | None \<Rightarrow>
                             (case hbmMask ii of
                                Some b \<Rightarrow> b\<lparr>bmHeight := trunc_div (bmHeight b) 2\<rparr>
                              | None \<Rightarrow> \<lparr>bmWidth = 0, bmHeight = 0\<rparr>))
               in cv1\<lparr>width := (if bmWidth bm \<noteq> 0 then bmWidth bm else 32),
                      height := (if bmHeight bm \<noteq> 0 then bmHeight bm else 32),
                      hotX := wrap32 (xHotspot ii),
                      hotY := wrap32 (yHotspot ii)\<rparr>)"

section \<open>One iteration of the main loop\<close>

text \<open>
  What one iteration reads from outside: whether a \<^verbatim>\<open>WM_QUIT\<close> is pending, the clock after
  the pacing sleep, \<^verbatim>\<open>GetCursorPos\<close> (\<open>None\<close> when it fails, which leaves the
  zero-initialised point), whether the backbuffer could be resized after a change of the
  virtual screen, \<^verbatim>\<open>GetCursorInfo\<close> (\<open>None\<close> when it fails), the clock read in the
  hidden-pointer branch, and \<^verbatim>\<open>GetIconInfo\<close>.
\<close>

record tick_env =
  env_quit :: bool
  env_lastTick :: time_point
  env_GetCursorPos :: "POINT option"
  env_resize_ok :: bool
  env_GetCursorInfo :: "CURSORINFO option"
  env_now :: time_point
  env_GetIconInfo :: "handle \<Rightarrow> ICONINFO option"

text \<open>The point passed to \<^verbatim>\<open>UpdateTrail\<close>.\<close>

definition sampled_pos :: "tick_env \<Rightarrow> POINT" where
  "sampled_pos env =
     (case env_GetCursorPos env of None \<Rightarrow> \<lparr>pt_x = 0, pt_y = 0\<rparr> | Some p \<Rightarrow> p)"

text \<open>
  The condition
  \<^verbatim>\<open>!GetCursorInfo(&ci) || ci.flags != CURSOR_SHOWING || !ci.hCursor\<close>.
\<close>

definition pointer_hidden :: "tick_env \<Rightarrow> bool" where
  "pointer_hidden env =
     (case env_GetCursorInfo env of
        None \<Rightarrow> True
      | Some ci \<Rightarrow> flags ci \<noteq> CURSOR_SHOWING \<or> hCursor ci = 0)"

text \<open>
  The state that an iteration carries over is the trail and the cursor visual. The result
  is \<open>None\<close> when the program exits in this iteration; otherwise the new trail, the new
  cursor visual, and whether \<^verbatim>\<open>DrawTrail\<close> is called.
\<close>

definition tick ::
  "config \<Rightarrow> tick_env \<Rightarrow> Sample list \<Rightarrow> CursorVisual \<Rightarrow> (Sample list \<times> CursorVisual \<times> bool) option" where
  "tick cfg env trail cv =
     (if env_quit env then None
      else
        let trail1 = UpdateTrail cfg trail (sampled_pos env) (env_lastTick env)
        in if \<not> env_resize_ok env then None
           else
             (case env_GetCursorInfo env of
                None \<Rightarrow>
                  (let trail2 = evict cfg (env_now env) trail1
                   in Some (trail2, cv, trail2 \<noteq> []))
              | Some ci \<Rightarrow>
                  if flags ci \<noteq> CURSOR_SHOWING \<or> hCursor ci = 0
                  then (let trail2 = evict cfg (env_now env) trail1
                        in Some (trail2, cv, trail2 \<noteq> []))
                  else Some (trail1, RefreshCursorVisual (env_GetIconInfo env) cv ci, True)))"

section \<open>The tinted copy of the cursor\<close>

text \<open>
  A pixel of a 32-bit DIB, as the four bytes \<^verbatim>\<open>p[0]\<close> (blue), \<^verbatim>\<open>p[1]\<close> (green),
  \<^verbatim>\<open>p[2]\<close> (red) and \<^verbatim>\<open>p[3]\<close> (alpha) that the tint loop addresses.
\<close>

record pixel =
  p0 :: BYTE
  p1 :: BYTE
  p2 :: BYTE
  p3 :: BYTE

text \<open>
  \<^verbatim>\<open>static_cast<BYTE>((p[k] * Tint) / 255)\<close>: the bytes are promoted to \<^verbatim>\<open>int\<close>, the
  division truncates, the cast keeps the low eight bits.
\<close>

definition tint_channel :: "BYTE \<Rightarrow> BYTE \<Rightarrow> BYTE" where
  "tint_channel c tint = word_of_int (trunc_div (uint c * uint tint) 255)"

definition tint_pixel :: "config \<Rightarrow> pixel \<Rightarrow> pixel" where
  "tint_pixel cfg p =
     p\<lparr>p2 := tint_channel (p2 p) (TintR cfg),
       p1 := tint_channel (p1 p) (TintG cfg),
       p0 := tint_channel (p0 p) (TintB cfg)\<rparr>"

text \<open>The loop over the first \<open>count\<close> pixels of the bitmap.\<close>

fun tint_loop :: "config \<Rightarrow> nat \<Rightarrow> pixel list \<Rightarrow> pixel list" where
  "tint_loop cfg 0 px = px"
| "tint_loop cfg (Suc n) [] = []"
| "tint_loop cfg (Suc n) (p # px) = tint_pixel cfg p # tint_loop cfg n px"

text \<open>\<^verbatim>\<open>static_cast<UINT>(cv.width * cv.height)\<close>.\<close>

definition pixel_count :: "CursorVisual \<Rightarrow> nat" where
  "pixel_count cv = nat (wrap32 (width cv * height cv) mod 4294967296)"

section \<open>The blend loop of DrawTrail\<close>

record RECT =
  rc_left :: int
  rc_top :: int
  rc_right :: int
  rc_bottom :: int

text \<open>
  One \<^verbatim>\<open>AlphaBlend\<close> call: the destination position and the constant alpha. The size and
  the source are the same for all calls of a frame.
\<close>

record BlendOp =
  dstX :: int
  dstY :: int
  alpha :: BYTE

text \<open>\<^verbatim>\<open>std::clamp(v, lo, hi)\<close>.\<close>

definition clamp_real :: "real \<Rightarrow> real \<Rightarrow> real \<Rightarrow> real" where
  "clamp_real v lo hi = (if v < lo then lo else if hi < v then hi else v)"

text \<open>\<^verbatim>\<open>std::lround\<close>: to the nearest integer, halves away from zero.\<close>

definition lround :: "real \<Rightarrow> int" where
  "lround r = (if 0 \<le> r then \<lfloor>r + 1 / 2\<rfloor> else - \<lfloor>- r + 1 / 2\<rfloor>)"

text \<open>
  \<^verbatim>\<open>std::max(0.f, 1.f - (age0 + (age0 * t * 0.1f)) / gTrailFadeMs)\<close>: five
  \<^verbatim>\<open>float\<close> operations, each rounded; \<^verbatim>\<open>0.1f\<close> is the binary32 number nearest to 0.1.
\<close>

definition step_fade :: "config \<Rightarrow> real \<Rightarrow> real \<Rightarrow> real" where
  "step_fade cfg age0 t =
     max 0 (f32 (1 - f32 (f32 (age0 + f32 (f32 (age0 * t) * f32 (1 / 10))) / gTrailFadeMs cfg)))"

text \<open>\<^verbatim>\<open>std::clamp(dist * gSensitivity, 0.f, 1.f)\<close>.\<close>

definition speed_factor :: "config \<Rightarrow> real \<Rightarrow> real" where
  "speed_factor cfg dst = clamp_real (f32 (dst * gSensitivity cfg)) 0 1"

text \<open>
  The \<^verbatim>\<open>float\<close> that is cast to \<^verbatim>\<open>BYTE\<close>:
  \<^verbatim>\<open>std::clamp(gTrailMaxAlpha * fade * speedFactor, 0.f, 255.f)\<close>, the byte converted to
  \<^verbatim>\<open>float\<close> and the two products rounded from left to right.
\<close>

definition step_alpha_real :: "config \<Rightarrow> real \<Rightarrow> real \<Rightarrow> real \<Rightarrow> real" where
  "step_alpha_real cfg age0 dst t =
     clamp_real
       (f32 (f32 (real (unat (gTrailMaxAlpha cfg)) * step_fade cfg age0 t) * speed_factor cfg dst))
       0 255"

text \<open>
  The \<^verbatim>\<open>BYTE a\<close> of a step: the cast of a \<^verbatim>\<open>float\<close> between 0 and 255 drops the
  fraction.
\<close>

definition step_alpha :: "config \<Rightarrow> real \<Rightarrow> real \<Rightarrow> real \<Rightarrow> BYTE" where
  "step_alpha cfg age0 dst t = word_of_int \<lfloor>step_alpha_real cfg age0 dst t\<rfloor>"

text \<open>
  The interpolation fraction of step \<open>j\<close>: \<^verbatim>\<open>j * stepFrac\<close> with
  \<^verbatim>\<open>stepFrac = 1.f / static_cast<float>(steps)\<close>.
\<close>

definition step_t :: "int \<Rightarrow> nat \<Rightarrow> real" where
  "step_t steps j = f32 (f32 (real j) * f32 (1 / f32 (real_of_int steps)))"

text \<open>
  The body of the inner loop for step \<open>j\<close>: the list of the \<^verbatim>\<open>AlphaBlend\<close> calls it
  issues, none or one. The point is \<^verbatim>\<open>lround(s0.pt.x + dx * t)\<close>, the coordinate
  converted to \<^verbatim>\<open>float\<close>.
\<close>

definition step_blend ::
  "config \<Rightarrow> CursorVisual \<Rightarrow> RECT \<Rightarrow> Sample \<Rightarrow> real \<Rightarrow> real \<Rightarrow> real \<Rightarrow> real \<Rightarrow> int \<Rightarrow> nat \<Rightarrow> BlendOp list" where
  "step_blend cfg cv vs s0 dx dy age0 dst steps j =
     (let t = step_t steps j;
          p = \<lparr>pt_x = lround (f32 (f32 (real_of_int (pt_x (s_pt s0))) + f32 (dx * t))),
               pt_y = lround (f32 (f32 (real_of_int (pt_y (s_pt s0))) + f32 (dy * t)))\<rparr>;
          a = step_alpha cfg age0 dst t
      in if a < 3 then []
         else [\<lparr>dstX = wrap32 (wrap32 (pt_x p - rc_left vs) - hotX cv),
                 dstY = wrap32 (wrap32 (pt_y p - rc_top vs) - hotY cv),
                 alpha = a\<rparr>])"

text \<open>\<^verbatim>\<open>for (int j = steps; j >= 0; --j)\<close>, from \<open>j = n\<close>.\<close>

fun step_loop :: "(nat \<Rightarrow> BlendOp list) \<Rightarrow> nat \<Rightarrow> BlendOp list" where
  "step_loop body 0 = body 0"
| "step_loop body (Suc n) = body (Suc n) @ step_loop body n"

text \<open>
  The locals of the outer loop for the pair \<open>s0\<close>, \<open>s1\<close>: the age of the older sample
  in whole milliseconds as a \<^verbatim>\<open>float\<close>, the coordinate differences as \<^verbatim>\<open>float\<close>s, the
  squared distance, the distance (\<^verbatim>\<open>sqrtf\<close> rounds the exact root) and the step count
  (\<^verbatim>\<open>ceilf\<close> is exact).
\<close>

definition pair_age0 :: "time_point \<Rightarrow> Sample \<Rightarrow> real" where
  "pair_age0 now s0 = f32 (real_of_int (age_ms now (s_t s0)))"

definition pair_dx :: "Sample \<Rightarrow> Sample \<Rightarrow> real" where
  "pair_dx s0 s1 = f32 (real_of_int (wrap32 (pt_x (s_pt s1) - pt_x (s_pt s0))))"

definition pair_dy :: "Sample \<Rightarrow> Sample \<Rightarrow> real" where
  "pair_dy s0 s1 = f32 (real_of_int (wrap32 (pt_y (s_pt s1) - pt_y (s_pt s0))))"

definition pair_distSq :: "Sample \<Rightarrow> Sample \<Rightarrow> real" where
  "pair_distSq s0 s1 =
     f32 (f32 (pair_dx s0 s1 * pair_dx s0 s1) + f32 (pair_dy s0 s1 * pair_dy s0 s1))"

definition pair_dist :: "Sample \<Rightarrow> Sample \<Rightarrow> real" where
  "pair_dist s0 s1 = f32 (sqrt (pair_distSq s0 s1))"

definition pair_steps :: "Sample \<Rightarrow> Sample \<Rightarrow> int" where
  "pair_steps s0 s1 = \<lceil>pair_dist s0 s1\<rceil>"

text \<open>The body of the outer loop for the pair \<open>s0\<close>, \<open>s1\<close>.\<close>

definition pair_blends ::
  "config \<Rightarrow> CursorVisual \<Rightarrow> RECT \<Rightarrow> time_point \<Rightarrow> Sample \<Rightarrow> Sample \<Rightarrow> BlendOp list" where
  "pair_blends cfg cv vs now s0 s1 =
     (if pair_age0 now s0 > gTrailFadeMs cfg then []
      else if pair_distSq s0 s1 < 1 then []
      else if pair_steps s0 s1 < 0 then []
      else step_loop
             (step_blend cfg cv vs s0 (pair_dx s0 s1) (pair_dy s0 s1) (pair_age0 now s0)
                (pair_dist s0 s1) (pair_steps s0 s1))
             (nat (pair_steps s0 s1)))"

text \<open>
  \<^verbatim>\<open>for (int i = size - 2; i >= 0; --i)\<close>: \<open>draw_loop body trail k\<close> runs the
  iterations \<open>i = k - 1\<close> down to \<open>i = 0\<close>.
\<close>

fun draw_loop :: "(Sample \<Rightarrow> Sample \<Rightarrow> BlendOp list) \<Rightarrow> Sample list \<Rightarrow> nat \<Rightarrow> BlendOp list" where
  "draw_loop body trail 0 = []"
| "draw_loop body trail (Suc i) = body (trail ! i) (trail ! Suc i) @ draw_loop body trail i"

text \<open>All \<^verbatim>\<open>AlphaBlend\<close> calls of one frame, in the order in which they are issued.\<close>

definition trail_blends ::
  "config \<Rightarrow> CursorVisual \<Rightarrow> RECT \<Rightarrow> time_point \<Rightarrow> Sample list \<Rightarrow> BlendOp list" where
  "trail_blends cfg cv vs now trail =
     draw_loop (pair_blends cfg cv vs now) trail (length trail - 1)"

section \<open>DrawTrail and the tint cache\<close>

record TempIconSurf =
  tmp_memDC :: bool
  tmp_dib :: bool
  tmp_w :: int
  tmp_h :: int

text \<open>
  The tint cache globals. \<open>sTintDC\<close> says whether the device context exists;
  \<open>sTintBMP\<close> is \<open>None\<close> for a null bitmap and otherwise holds the bitmap's pixels
  (\<^verbatim>\<open>sTintBits\<close>).
\<close>

record TintCache =
  sLastCursor :: handle
  sLastW :: int
  sLastH :: int
  sTintDC :: bool
  sTintBMP :: "pixel list option"

definition initial_TintCache :: TintCache where
  "initial_TintCache =
     \<lparr>sLastCursor = 0, sLastW = 0, sLastH = 0, sTintDC = False, sTintBMP = None\<rparr>"

definition initial_TempIconSurf :: TempIconSurf where
  "initial_TempIconSurf = \<lparr>tmp_memDC = False, tmp_dib = False, tmp_w = 0, tmp_h = 0\<rparr>"

text \<open>
  What one \<^verbatim>\<open>DrawTrail\<close> call gets from the operating system: whether each allocation
  succeeds, the pixels that \<^verbatim>\<open>DrawIconEx\<close> paints for the cursor, and the clock.
\<close>

record draw_env =
  tmp_CreateDIBSection :: bool
  tmp_CreateCompatibleDC :: bool
  tint_CreateCompatibleDC :: bool
  tint_CreateDIBSection :: bool
  DrawIconEx :: "pixel list"
  draw_now :: time_point

text \<open>\<^verbatim>\<open>TempIconSurf::EnsureSize\<close>.\<close>

definition EnsureSize :: "draw_env \<Rightarrow> TempIconSurf \<Rightarrow> int \<Rightarrow> int \<Rightarrow> bool \<times> TempIconSurf" where
  "EnsureSize env tmp W0 H0 =
     (let W = (if W0 \<le> 0 \<or> H0 \<le> 0 then 1 else W0);
          H = (if W0 \<le> 0 \<or> H0 \<le> 0 then 1 else H0)
      in if W = tmp_w tmp \<and> H = tmp_h tmp \<and> tmp_memDC tmp \<and> tmp_dib tmp then (True, tmp)
         else if \<not> tmp_CreateDIBSection env
         then (False, \<lparr>tmp_memDC = False, tmp_dib = False, tmp_w = 0, tmp_h = 0\<rparr>)
         else (True, \<lparr>tmp_memDC = tmp_CreateCompatibleDC env, tmp_dib = True, tmp_w = W, tmp_h = H\<rparr>))"

text \<open>The condition that guards the rebuild of the tinted bitmap.\<close>

definition need_rebuild :: "TintCache \<Rightarrow> CursorVisual \<Rightarrow> bool" where
  "need_rebuild cache cv =
     (sTintBMP cache = None \<or> \<not> sTintDC cache \<or> hCur cv \<noteq> sLastCursor cache \<or>
      width cv \<noteq> sLastW cache \<or> height cv \<noteq> sLastH cache)"

text \<open>
  What a call did: whether it entered the rebuild block, whether the per-pixel tint loop
  ran, the \<^verbatim>\<open>AlphaBlend\<close> calls in order, and whether the frame was pushed to the window.
\<close>

record draw_result =
  dr_rebuilt :: bool
  dr_tinted :: bool
  dr_blends :: "BlendOp list"
  dr_presented :: bool

definition DrawTrail ::
  "config \<Rightarrow> draw_env \<Rightarrow> TempIconSurf \<Rightarrow> TintCache \<Rightarrow> CursorVisual \<Rightarrow> Sample list \<Rightarrow> RECT
     \<Rightarrow> TempIconSurf \<times> TintCache \<times> draw_result" where
  "DrawTrail cfg env tmp cache cv trail vs =
     (case EnsureSize env tmp (width cv) (height cv) of
        (ok, tmp1) \<Rightarrow>
          if \<not> ok
          then (tmp1, cache, \<lparr>dr_rebuilt = False, dr_tinted = False, dr_blends = [], dr_presented = False\<rparr>)
          else if need_rebuild cache cv
          then
            (let cache1 = cache\<lparr>sLastCursor := hCur cv, sLastW := width cv, sLastH := height cv,
                                sTintDC := (sTintDC cache \<or> tint_CreateCompatibleDC env),
                                sTintBMP := None\<rparr>
             in if \<not> tint_CreateDIBSection env
                then (tmp1, cache1,
                      \<lparr>dr_rebuilt = True, dr_tinted = False, dr_blends = [], dr_presented = False\<rparr>)
                else (tmp1,
                      cache1\<lparr>sTintBMP := Some (tint_loop cfg (pixel_count cv) (DrawIconEx env))\<rparr>,
                      \<lparr>dr_rebuilt = True, dr_tinted = True,
                       dr_blends = trail_blends cfg cv vs (draw_now env) trail,
                       dr_presented = True\<rparr>))
          else if sTintBMP cache = None
          then (tmp1, cache, \<lparr>dr_rebuilt = False, dr_tinted = False, dr_blends = [], dr_presented = False\<rparr>)
          else (tmp1, cache,
                \<lparr>dr_rebuilt = False, dr_tinted = False,
                 dr_blends = trail_blends cfg cv vs (draw_now env) trail,
                 dr_presented = True\<rparr>))"

text \<open>
  A sequence of \<^verbatim>\<open>DrawTrail\<close> calls, one per frame, threading the scratch surface and the
  tint cache: the number of calls that entered the rebuild block.
\<close>

fun count_rebuilds ::
  "config \<Rightarrow> TempIconSurf \<Rightarrow> TintCache \<Rightarrow> (draw_env \<times> CursorVisual \<times> Sample list \<times> RECT) list \<Rightarrow> nat" where
  "count_rebuilds cfg tmp cache [] = 0"
| "count_rebuilds cfg tmp cache ((env, cv, trail, vs) # frames) =
     (case DrawTrail cfg env tmp cache cv trail vs of
        (tmp1, cache1, r) \<Rightarrow>
          (if dr_rebuilt r then 1 else 0) + count_rebuilds cfg tmp1 cache1 frames)"

section \<open>Launch arguments\<close>

text \<open>
  The command line is a string of wide characters; only its ASCII part matters here.
  The functions \<^verbatim>\<open>_wcsicmp\<close>, \<^verbatim>\<open>_wtoi\<close>, \<^verbatim>\<open>_wtof\<close>, \<^verbatim>\<open>swscanf_s\<close> and \<^verbatim>\<open>wcstok_s\<close>
  belong to the C runtime. They are modelled from their documentation, for decimal and
  hexadecimal numerals: leading white space, an optional sign, digits, and for \<^verbatim>\<open>_wtof\<close> a
  fraction and a decimal exponent; input that does not start with a number converts to 0.
\<close>

definition to_lower :: "char \<Rightarrow> char" where
  "to_lower c =
     (case map_of (zip ''ABCDEFGHIJKLMNOPQRSTUVWXYZ'' ''abcdefghijklmnopqrstuvwxyz'') c of
        Some l \<Rightarrow> l
      | None \<Rightarrow> c)"

text \<open>\<^verbatim>\<open>_wcsicmp(a, b) == 0\<close>.\<close>

definition wcsicmp_eq :: "string \<Rightarrow> string \<Rightarrow> bool" where
  "wcsicmp_eq a b = (map to_lower a = map to_lower b)"

definition is_space :: "char \<Rightarrow> bool" where
  "is_space c = (c \<in> set [CHR '' '', CHR 0x09, CHR 0x0A, CHR 0x0B, CHR 0x0C, CHR 0x0D])"

definition digit_of :: "char \<Rightarrow> nat option" where
  "digit_of = map_of (zip ''0123456789'' [0, 1, 2, 3, 4, 5, 6, 7, 8, 9])"

definition hex_digit_of :: "char \<Rightarrow> nat option" where
  "hex_digit_of =
     map_of (zip ''0123456789abcdefABCDEF''
               [0, 1, 2, 3, 4, 5, 6, 7, 8, 9, 10, 11, 12, 13, 14, 15, 10, 11, 12, 13, 14, 15])"

text \<open>The value of the longest prefix of digits, in the given base, and the rest.\<close>

fun scan_digits :: "(char \<Rightarrow> nat option) \<Rightarrow> nat \<Rightarrow> nat \<Rightarrow> nat \<Rightarrow> string \<Rightarrow> nat \<times> nat \<times> string" where
  "scan_digits digit base acc n [] = (acc, n, [])"
| "scan_digits digit base acc n (c # cs) =
     (case digit c of
        None \<Rightarrow> (acc, n, c # cs)
      | Some d \<Rightarrow> scan_digits digit base (base * acc + d) (Suc n) cs)"

text \<open>An optional sign: whether it is a minus, and the rest.\<close>

definition scan_sign :: "string \<Rightarrow> bool \<times> string" where
  "scan_sign s =
     (case s of
        [] \<Rightarrow> (False, [])
      | c # cs \<Rightarrow>
          if c = CHR ''-'' then (True, cs)
          else if c = CHR ''+'' then (False, cs)
          else (False, c # cs))"

text \<open>\<^verbatim>\<open>_wtoi\<close>; a value out of the range of \<^verbatim>\<open>int\<close> is returned as the nearest bound.\<close>

definition wtoi :: "string \<Rightarrow> int" where
  "wtoi s =
     (case scan_sign (dropWhile is_space s) of
        (neg, s1) \<Rightarrow>
          (case scan_digits digit_of 10 0 0 s1 of
             (v, n, rest) \<Rightarrow>
               let r = (if neg then - int v else int v)
               in if r < - 2147483648 then - 2147483648
                  else if 2147483647 < r then 2147483647
                  else r))"

text \<open>The decimal exponent that may follow the digits of a floating-point numeral.\<close>

definition scan_exponent :: "string \<Rightarrow> int" where
  "scan_exponent s =
     (case s of
        [] \<Rightarrow> 0
      | c # cs \<Rightarrow>
          if c \<in> set ''eEdD''
          then (case scan_sign cs of
                  (neg, s1) \<Rightarrow>
                    (case scan_digits digit_of 10 0 0 s1 of
                       (v, n, rest) \<Rightarrow> if n = 0 then 0 else if neg then - int v else int v))
          else 0)"

text \<open>
  The decimal numeral that \<^verbatim>\<open>_wtof\<close> reads, as an exact real; \<^verbatim>\<open>_wtof\<close> returns the
  \<^verbatim>\<open>double\<close> nearest to it.
\<close>

definition wtof :: "string \<Rightarrow> real" where
  "wtof s =
     (case scan_sign (dropWhile is_space s) of
        (neg, s1) \<Rightarrow>
          (case scan_digits digit_of 10 0 0 s1 of
             (ip, n_ip, s2) \<Rightarrow>
               (case (case s2 of
                        [] \<Rightarrow> (0, 0, [])
                      | c # cs \<Rightarrow>
                          if c = CHR ''.'' then scan_digits digit_of 10 0 0 cs else (0, 0, c # cs)) of
                  (fp, n_fp, s3) \<Rightarrow>
                    if n_ip = 0 \<and> n_fp = 0 then 0
                    else
                      let m = real ip + real fp / 10 ^ n_fp;
                          e = scan_exponent s3;
                          v = (if 0 \<le> e then m * 10 ^ nat e else m / 10 ^ nat (- e))
                      in if neg then - v else v)))"

text \<open>
  \<^verbatim>\<open>swscanf_s(val, L"%x", &rgb)\<close>: \<open>None\<close> when no hexadecimal number is read (the call
  does not return 1), otherwise the \<^verbatim>\<open>unsigned int\<close> stored in \<^verbatim>\<open>rgb\<close>.
\<close>

definition scan_hex :: "string \<Rightarrow> nat option" where
  "scan_hex s =
     (case scan_sign (dropWhile is_space s) of
        (neg, s1) \<Rightarrow>
          let s2 = (case s1 of
                      c0 # c1 # c2 # cs \<Rightarrow>
                        if c0 = CHR ''0'' \<and> (c1 = CHR ''x'' \<or> c1 = CHR ''X'') \<and> hex_digit_of c2 \<noteq> None
                        then c2 # cs else s1
                    | _ \<Rightarrow> s1)
          in (case scan_digits hex_digit_of 16 0 0 s2 of
                (v, n, rest) \<Rightarrow>
                  if n = 0 then None
                  else Some (nat ((if neg then - int v else int v) mod 4294967296))))"

text \<open>
  \<^verbatim>\<open>wcstok_s\<close> with the delimiter \<^verbatim>\<open>L" "\<close>: the command line is cut into its tokens, the
  maximal runs of characters other than the space. The \<^verbatim>\<open>wcstok_s\<close> position of the program is the
  list of the tokens that have not been returned yet.
\<close>

fun split_tokens :: "string \<Rightarrow> string \<Rightarrow> string list" where
  "split_tokens cur [] = (if cur = [] then [] else [cur])"
| "split_tokens cur (c # cs) =
     (if c = CHR '' ''
      then (if cur = [] then split_tokens [] cs else cur # split_tokens [] cs)
      else split_tokens (cur @ [c]) cs)"

text \<open>The token without a leading \<^verbatim>\<open>/\<close> or \<^verbatim>\<open>-\<close>.\<close>

definition trimmed :: "string \<Rightarrow> string" where
  "trimmed token =
     (case token of
        [] \<Rightarrow> []
      | c # cs \<Rightarrow> if c = CHR ''/'' \<or> c = CHR ''-'' then cs else c # cs)"

text \<open>
  \<^verbatim>\<open>ParseCommandValue\<close>: when the token is one of the names, the next token is taken from
  the context and, if there is one, stored by \<open>store\<close>, which stands for the custom parser
  or for the conversion that the type of \<^verbatim>\<open>outVal\<close> selects.
\<close>

definition ParseCommandValue ::
  "string \<Rightarrow> string list \<Rightarrow> string list \<Rightarrow> (string \<Rightarrow> config \<Rightarrow> config) \<Rightarrow> config
     \<Rightarrow> config \<times> string list" where
  "ParseCommandValue token names ctx store cfg =
     (if list_ex (wcsicmp_eq (trimmed token)) names
      then (case ctx of
              [] \<Rightarrow> (cfg, [])
            | val # rest \<Rightarrow> (store val cfg, rest))
      else (cfg, ctx))"

text \<open>
  The floating-point branch, for \<^verbatim>\<open>gSensitivity\<close> and \<^verbatim>\<open>gTrailFadeMs\<close>:
  \<^verbatim>\<open>std::clamp(static_cast<float>(_wtof(val)), minVal, maxVal)\<close>, with the bounds
  \<^verbatim>\<open>0.001f\<close> and \<^verbatim>\<open>1.0f\<close>, and \<^verbatim>\<open>1.f\<close> and \<^verbatim>\<open>1000.f\<close>.
\<close>

definition store_sensitivity :: "string \<Rightarrow> config \<Rightarrow> config" where
  "store_sensitivity val cfg =
     cfg\<lparr>gSensitivity := clamp_real (f32 (f64 (wtof val))) (f32 (1 / 1000)) 1\<rparr>"

definition store_fade :: "string \<Rightarrow> config \<Rightarrow> config" where
  "store_fade val cfg = cfg\<lparr>gTrailFadeMs := clamp_real (f32 (f64 (wtof val))) 1 1000\<rparr>"

text \<open>The integral branch, for \<^verbatim>\<open>gTrailMaxAlpha\<close>.\<close>

definition clamp_int :: "int \<Rightarrow> int \<Rightarrow> int \<Rightarrow> int" where
  "clamp_int v lo hi = (if v < lo then lo else if hi < v then hi else v)"

definition store_alpha :: "string \<Rightarrow> config \<Rightarrow> config" where
  "store_alpha val cfg = cfg\<lparr>gTrailMaxAlpha := word_of_int (clamp_int (wtoi val) 1 255)\<rparr>"

text \<open>The custom parser of the colour.\<close>

definition store_color :: "string \<Rightarrow> config \<Rightarrow> config" where
  "store_color val cfg =
     (let v = (case val of [] \<Rightarrow> [] | c # cs \<Rightarrow> if c = CHR ''#'' then cs else c # cs)
      in case scan_hex v of
           None \<Rightarrow> cfg
         | Some rgb \<Rightarrow>
             cfg\<lparr>TintR := of_nat (rgb div 65536 mod 256),
                 TintG := of_nat (rgb div 256 mod 256),
                 TintB := of_nat (rgb mod 256)\<rparr>)"

text \<open>The four \<^verbatim>\<open>ParseCommandValue\<close> calls made for one token.\<close>

definition parse_token :: "config \<Rightarrow> string \<Rightarrow> string list \<Rightarrow> config \<times> string list" where
  "parse_token cfg token ctx =
     (case ParseCommandValue token [''sensitivity'', ''s''] ctx store_sensitivity cfg of
        (cfg1, c1) \<Rightarrow>
          (case ParseCommandValue token [''fade'', ''f''] c1 store_fade cfg1 of
             (cfg2, c2) \<Rightarrow>
               (case ParseCommandValue token [''alpha'', ''a''] c2 store_alpha cfg2 of
                  (cfg3, c3) \<Rightarrow>
                    ParseCommandValue token [''color'', ''c''] c3 store_color cfg3)))"

text \<open>
  The \<^verbatim>\<open>while (token)\<close> loop of \<^verbatim>\<open>wWinMain\<close>. It ends because no call of
  \<^verbatim>\<open>ParseCommandValue\<close> makes the context longer.
\<close>

function parse_loop :: "config \<Rightarrow> string list \<Rightarrow> config" where
  "parse_loop cfg [] = cfg"
| "parse_loop cfg (token # ctx) =
     parse_loop (fst (parse_token cfg token ctx)) (snd (parse_token cfg token ctx))"
  by pat_completeness auto
termination
proof (relation "measure (\<lambda>(cfg, tokens). length tokens)")
  show "wf (measure (\<lambda>(cfg, tokens). length tokens))" by simp
next
  fix cfg :: config and token :: string and ctx :: "string list"
  have one: "length (snd (ParseCommandValue token names c store g)) \<le> length c"
    for names c store g
    by (simp add: ParseCommandValue_def split: list.splits)
  obtain cfg1 c1 where a: "ParseCommandValue token [''sensitivity'', ''s''] ctx store_sensitivity cfg = (cfg1, c1)"
    by (cases "ParseCommandValue token [''sensitivity'', ''s''] ctx store_sensitivity cfg")
  obtain cfg2 c2 where b: "ParseCommandValue token [''fade'', ''f''] c1 store_fade cfg1 = (cfg2, c2)"
    by (cases "ParseCommandValue token [''fade'', ''f''] c1 store_fade cfg1")
  obtain cfg3 c3 where c: "ParseCommandValue token [''alpha'', ''a''] c2 store_alpha cfg2 = (cfg3, c3)"
    by (cases "ParseCommandValue token [''alpha'', ''a''] c2 store_alpha cfg2")
  have "length c1 \<le> length ctx"
    using one [of "[''sensitivity'', ''s'']" ctx store_sensitivity cfg] a by simp
  moreover have "length c2 \<le> length c1"
    using one [of "[''fade'', ''f'']" c1 store_fade cfg1] b by simp
  moreover have "length c3 \<le> length c2"
    using one [of "[''alpha'', ''a'']" c2 store_alpha cfg2] c by simp
  moreover have "length (snd (ParseCommandValue token [''color'', ''c''] c3 store_color cfg3)) \<le> length c3"
    by (rule one)
  ultimately have "length (snd (parse_token cfg token ctx)) \<le> length ctx"
    by (simp add: parse_token_def a b c)
  then show "((fst (parse_token cfg token ctx), snd (parse_token cfg token ctx)), cfg, token # ctx)
      \<in> measure (\<lambda>(cfg, tokens). length tokens)"
    by (cases "parse_token cfg token ctx") simp
qed

text \<open>The parsing of \<^verbatim>\<open>lpCmdLine\<close> at the start of \<^verbatim>\<open>wWinMain\<close>.\<close>

definition parse_command_line :: "config \<Rightarrow> string \<Rightarrow> config" where
  "parse_command_line cfg lpCmdLine = parse_loop cfg (split_tokens [] lpCmdLine)"

section \<open>Properties of the floating-point model\<close>

text \<open>The equations that evaluate a rounding at a given number.\<close>

lemmas float_eval = f32_def f64_def round_binary_def binade_def rne_def pow2_def compute_bitlen

lemma pow2_powr: "pow2 e = 2 powr (real_of_int e)"
  by (simp add: pow2_def powr_int)

lemma pow2_pos: "0 < pow2 e"
  by (simp add: pow2_powr)

lemma pow2_add: "pow2 (a + b) = pow2 a * pow2 b"
  by (simp add: pow2_powr powr_add)

lemma pow2_mono: "a \<le> b \<Longrightarrow> pow2 a \<le> pow2 b"
  by (simp add: pow2_powr)

lemma pow2_less_cancel: "pow2 a < pow2 b \<Longrightarrow> a < b"
  by (simp add: pow2_powr)

lemma pow2_nat: "pow2 (int n) = 2 ^ n"
  by (simp add: pow2_def)

lemma pow2_neg_nat: "pow2 (- int n) = 1 / 2 ^ n"
  by (simp add: pow2_powr powr_minus powr_realpow divide_inverse)

lemma binade_bounds:
  assumes "x \<noteq> 0"
  shows "pow2 (binade x) \<le> \<bar>x\<bar> \<and> \<bar>x\<bar> < pow2 (binade x + 1)"
proof (cases "1 \<le> \<bar>x\<bar>")
  case True
  define n where "n = \<lfloor>\<bar>x\<bar>\<rfloor>"
  have n1: "1 \<le> n" using True by (simp add: n_def le_floor_iff)
  then have npos: "0 < n" by simp
  define k where "k = nat (bitlen n - 1)"
  have bl: "bitlen n = int k + 1"
    using npos bitlen_eq_zero_iff [of n] bitlen_nonneg [of n] by (simp add: k_def)
  have nk: "nat (bitlen n) = Suc k" using bl by simp
  have b: "2 ^ k \<le> n \<and> n < 2 ^ (Suc k)"
    using bitlen_bounds [OF npos] unfolding nk k_def [symmetric] .
  have e: "binade x = int k" using True bl by (simp add: binade_def n_def)
  have "real_of_int (2 ^ k) \<le> real_of_int n" using b by (simp only: of_int_le_iff)
  then have r1: "(2 :: real) ^ k \<le> real_of_int n" by simp
  have r2: "real_of_int n \<le> \<bar>x\<bar>" by (simp add: n_def)
  from r1 r2 have "(2 :: real) ^ k \<le> \<bar>x\<bar>" by linarith
  then have lo: "pow2 (int k) \<le> \<bar>x\<bar>" by (simp only: pow2_nat)
  have "n + 1 \<le> 2 ^ Suc k" using b by simp
  then have "real_of_int (n + 1) \<le> real_of_int (2 ^ Suc k)" by (simp only: of_int_le_iff)
  then have r3: "real_of_int n + 1 \<le> (2 :: real) ^ Suc k" by simp
  have r4: "\<bar>x\<bar> < real_of_int n + 1" by (simp add: n_def)
  from r3 r4 have "\<bar>x\<bar> < (2 :: real) ^ Suc k" by linarith
  then have hi: "\<bar>x\<bar> < pow2 (int (Suc k))" by (simp only: pow2_nat)
  have "int k + 1 = int (Suc k)" by simp
  with lo hi e show ?thesis by (simp only:)
next
  case False
  define y where "y = 1 / \<bar>x\<bar>"
  have xpos: "0 < \<bar>x\<bar>" using assms by simp
  have y1: "1 < y" using False xpos by (simp add: y_def)
  define c where "c = \<lceil>y\<rceil>"
  have "1 < c" using y1 by (simp add: c_def less_ceiling_iff)
  then have c2: "2 \<le> c" by simp
  then have cpos: "0 < c - 1" by simp
  define k where "k = nat (bitlen (c - 1) - 1)"
  have bl: "bitlen (c - 1) = int k + 1"
    using cpos bitlen_eq_zero_iff [of "c - 1"] bitlen_nonneg [of "c - 1"] by (simp add: k_def)
  have nk: "nat (bitlen (c - 1)) = Suc k" using bl by simp
  have b: "2 ^ k \<le> c - 1 \<and> c - 1 < 2 ^ (Suc k)"
    using bitlen_bounds [OF cpos] unfolding nk k_def [symmetric] .
  have e: "binade x = - int (Suc k)" using False bl by (simp add: binade_def c_def y_def)
  have "c \<le> 2 ^ Suc k" using b by simp
  then have "real_of_int c \<le> real_of_int (2 ^ Suc k)" by (simp only: of_int_le_iff)
  then have r1: "real_of_int c \<le> (2 :: real) ^ Suc k" by simp
  have r2: "y \<le> real_of_int c" by (simp add: c_def)
  from r1 r2 have "y \<le> (2 :: real) ^ Suc k" by linarith
  then have "1 / \<bar>x\<bar> \<le> 2 ^ Suc k" by (simp only: y_def)
  then have "1 \<le> 2 ^ Suc k * \<bar>x\<bar>" using xpos by (simp add: field_simps)
  then have "1 / 2 ^ Suc k \<le> \<bar>x\<bar>" by (simp add: field_simps)
  then have lo: "pow2 (- int (Suc k)) \<le> \<bar>x\<bar>" by (simp only: pow2_neg_nat)
  have "real_of_int (2 ^ k) \<le> real_of_int (c - 1)" using b by (simp only: of_int_le_iff)
  then have r3: "(2 :: real) ^ k \<le> real_of_int c - 1" by simp
  have r4: "real_of_int c - 1 < y" unfolding c_def by linarith
  from r3 r4 have "(2 :: real) ^ k < y" by linarith
  then have "2 ^ k < 1 / \<bar>x\<bar>" by (simp only: y_def)
  then have "2 ^ k * \<bar>x\<bar> < 1" using xpos by (simp add: field_simps)
  then have "\<bar>x\<bar> < 1 / 2 ^ k" by (simp add: field_simps)
  then have hi: "\<bar>x\<bar> < pow2 (- int k)" by (simp only: pow2_neg_nat)
  have "- int (Suc k) + 1 = - int k" by simp
  with lo hi e show ?thesis by (simp only:)
qed

lemma pow2_le_cancel: "pow2 a \<le> pow2 b \<Longrightarrow> a \<le> b"
  by (simp add: pow2_powr)

lemma rne_bounds: "\<lfloor>r\<rfloor> \<le> rne r \<and> rne r \<le> \<lfloor>r\<rfloor> + 1"
  by (simp add: rne_def)

lemma rne_of_int: "rne (of_int n) = n"
  by (simp add: rne_def)

lemma rne_mono:
  assumes "r \<le> s"
  shows "rne r \<le> rne s"
proof (cases "\<lfloor>r\<rfloor> = \<lfloor>s\<rfloor>")
  case True
  with assms show ?thesis by (simp add: rne_def)
next
  case False
  moreover have "\<lfloor>r\<rfloor> \<le> \<lfloor>s\<rfloor>" using assms by (rule floor_mono)
  ultimately have "\<lfloor>r\<rfloor> + 1 \<le> \<lfloor>s\<rfloor>" by simp
  with rne_bounds [of r] rne_bounds [of s] show ?thesis by linarith
qed

lemma rne_nonneg: "0 \<le> r \<Longrightarrow> 0 \<le> rne r"
  using rne_bounds [of r] by (simp add: order_trans [of 0 "\<lfloor>r\<rfloor>"])

lemma round_binary_zero: "round_binary p emin 0 = 0"
  by (simp add: round_binary_def)

lemma round_binary_nonneg:
  assumes "0 \<le> x"
  shows "0 \<le> round_binary p emin x"
proof (cases "x = 0")
  case True
  then show ?thesis by (simp add: round_binary_def)
next
  case False
  let ?u = "pow2 (max (binade x) emin - (p - 1))"
  have "0 \<le> \<bar>x\<bar> / ?u" using pow2_pos [of "max (binade x) emin - (p - 1)"] by simp
  then have "0 \<le> rne (\<bar>x\<bar> / ?u)" by (rule rne_nonneg)
  then have "0 \<le> real_of_int (rne (\<bar>x\<bar> / ?u)) * ?u"
    using pow2_pos [of "max (binade x) emin - (p - 1)"] by simp
  moreover have "sgn x = 1" using assms False by simp
  ultimately show ?thesis using False by (simp add: round_binary_def)
qed

lemma binade_mono:
  assumes "0 < x" and "x \<le> y"
  shows "binade x \<le> binade y"
proof -
  have "pow2 (binade x) \<le> \<bar>x\<bar>" using binade_bounds [of x] assms by simp
  moreover have "\<bar>y\<bar> < pow2 (binade y + 1)" using binade_bounds [of y] assms by simp
  ultimately have "pow2 (binade x) < pow2 (binade y + 1)" using assms by simp
  then have "binade x < binade y + 1" by (rule pow2_less_cancel)
  then show ?thesis by simp
qed

lemma round_binary_pos_eq:
  "0 < x \<Longrightarrow> round_binary p emin x =
     real_of_int (rne (x / pow2 (max (binade x) emin - (p - 1)))) * pow2 (max (binade x) emin - (p - 1))"
  by (simp add: round_binary_def)

lemma round_binary_mono_pos:
  assumes "0 < x" and "x \<le> y" and "1 \<le> p"
  shows "round_binary p emin x \<le> round_binary p emin y"
proof -
  have ypos: "0 < y" using assms by simp
  define ex where "ex = max (binade x) emin"
  define ey where "ey = max (binade y) emin"
  define ux where "ux = pow2 (ex - (p - 1))"
  define uy where "uy = pow2 (ey - (p - 1))"
  have uxpos: "0 < ux" and uypos: "0 < uy" by (simp_all add: ux_def uy_def pow2_pos)
  have fx: "round_binary p emin x = real_of_int (rne (x / ux)) * ux"
    using assms(1) by (simp add: round_binary_pos_eq ux_def ex_def)
  have fy: "round_binary p emin y = real_of_int (rne (y / uy)) * uy"
    using ypos by (simp add: round_binary_pos_eq uy_def ey_def)
  have exy: "ex \<le> ey" using binade_mono [OF assms(1,2)] by (simp add: ex_def ey_def)
  show ?thesis
  proof (cases "ex = ey")
    case True
    then have u: "ux = uy" by (simp add: ux_def uy_def)
    have "x / uy \<le> y / uy" using assms(2) uypos by (simp add: divide_right_mono)
    then have "rne (x / uy) \<le> rne (y / uy)" by (rule rne_mono)
    then have "real_of_int (rne (x / uy)) * uy \<le> real_of_int (rne (y / uy)) * uy"
      using uypos by simp
    then show ?thesis by (simp add: fx fy u)
  next
    case False
    with exy have lt: "ex + 1 \<le> ey" by simp
    then have "emin < ey" by (simp add: ex_def)
    then have eyb: "ey = binade y" by (simp add: ey_def)
    \<comment> \<open>the larger argument rounds to at least \<open>2 ^ ey\<close>\<close>
    have "pow2 ey \<le> y" using binade_bounds [of y] ypos eyb by simp
    then have "pow2 ey / uy \<le> y / uy" using uypos by (simp add: divide_right_mono)
    moreover have "pow2 ey / uy = pow2 (p - 1)"
    proof -
      have "pow2 ey = pow2 (p - 1) * uy"
        unfolding uy_def by (simp add: pow2_add [symmetric])
      then show ?thesis using uypos by simp
    qed
    ultimately have "pow2 (p - 1) \<le> y / uy" by simp
    moreover have "pow2 (p - 1) = real_of_int (2 ^ nat (p - 1))"
      using assms(3) by (simp add: pow2_def)
    ultimately have "rne (real_of_int (2 ^ nat (p - 1))) \<le> rne (y / uy)"
      by (intro rne_mono) simp
    then have "2 ^ nat (p - 1) \<le> rne (y / uy)" by (simp only: rne_of_int)
    then have "real_of_int (2 ^ nat (p - 1)) \<le> real_of_int (rne (y / uy))"
      by (simp only: of_int_le_iff)
    then have "real_of_int (2 ^ nat (p - 1)) * uy \<le> real_of_int (rne (y / uy)) * uy"
      using uypos by (simp only: mult_le_cancel_right_pos)
    moreover have "real_of_int (2 ^ nat (p - 1)) * uy = pow2 ey"
    proof -
      have "real_of_int (2 ^ nat (p - 1)) = pow2 (p - 1)" using assms(3) by (simp add: pow2_def)
      then show ?thesis unfolding uy_def by (simp add: pow2_add [symmetric])
    qed
    ultimately have ylo: "pow2 ey \<le> round_binary p emin y" by (simp add: fy)
    \<comment> \<open>the smaller argument rounds to at most \<open>2 ^ (ex + 1)\<close>\<close>
    have "binade x \<le> ex" by (simp add: ex_def)
    then have "pow2 (binade x + 1) \<le> pow2 (ex + 1)" by (intro pow2_mono) simp
    moreover have "x < pow2 (binade x + 1)" using binade_bounds [of x] assms(1) by simp
    ultimately have "x \<le> pow2 (ex + 1)" by simp
    then have "x / ux \<le> pow2 (ex + 1) / ux" using uxpos by (simp add: divide_right_mono)
    moreover have "pow2 (ex + 1) / ux = pow2 p"
    proof -
      have "pow2 (ex + 1) = pow2 p * ux"
        unfolding ux_def by (simp add: pow2_add [symmetric])
      then show ?thesis using uxpos by simp
    qed
    ultimately have "x / ux \<le> pow2 p" by simp
    moreover have pp: "pow2 p = real_of_int (2 ^ nat p)"
      using assms(3) by (simp add: pow2_def)
    ultimately have "rne (x / ux) \<le> rne (real_of_int (2 ^ nat p))"
      by (intro rne_mono) simp
    then have "rne (x / ux) \<le> 2 ^ nat p" by (simp only: rne_of_int)
    then have "real_of_int (rne (x / ux)) \<le> real_of_int (2 ^ nat p)"
      by (simp only: of_int_le_iff)
    then have "real_of_int (rne (x / ux)) * ux \<le> real_of_int (2 ^ nat p) * ux"
      using uxpos by (simp only: mult_le_cancel_right_pos)
    moreover have "real_of_int (2 ^ nat p) * ux = pow2 (ex + 1)"
      unfolding pp [symmetric] ux_def by (simp add: pow2_add [symmetric])
    ultimately have xhi: "round_binary p emin x \<le> pow2 (ex + 1)" by (simp add: fx)
    have "pow2 (ex + 1) \<le> pow2 ey" using lt by (rule pow2_mono)
    with xhi ylo show ?thesis by linarith
  qed
qed

lemma round_binary_mono_nonneg:
  assumes "0 \<le> x" and "x \<le> y" and "1 \<le> p"
  shows "round_binary p emin x \<le> round_binary p emin y"
proof (cases "x = 0")
  case True
  have "0 \<le> round_binary p emin y" using assms by (intro round_binary_nonneg) simp
  with True show ?thesis by (simp add: round_binary_zero)
next
  case False
  with assms(1) have "0 < x" by simp
  then show ?thesis using assms(2,3) by (rule round_binary_mono_pos)
qed

lemma round_binary_exact:
  assumes "0 < x" and "x = real_of_int k * pow2 (max (binade x) emin - (p - 1))"
  shows "round_binary p emin x = x"
proof -
  let ?u = "pow2 (max (binade x) emin - (p - 1))"
  have upos: "0 < ?u" by (rule pow2_pos)
  have "x / ?u = real_of_int k" using assms(2) upos by (simp add: field_simps)
  then have "rne (x / ?u) = k" by (simp only: rne_of_int)
  then show ?thesis using assms by (simp add: round_binary_pos_eq)
qed

lemma f32_zero: "f32 0 = 0"
  by (simp add: f32_def round_binary_zero)

lemma f32_nonneg: "0 \<le> x \<Longrightarrow> 0 \<le> f32 x"
  unfolding f32_def by (rule round_binary_nonneg)

lemma f32_mono_nonneg: "0 \<le> x \<Longrightarrow> x \<le> y \<Longrightarrow> f32 x \<le> f32 y"
  unfolding f32_def by (rule round_binary_mono_nonneg) simp_all

lemma f32_of_nat_exact:
  assumes "0 < n" and "n \<le> 16777216"
  shows "f32 (real_of_int n) = real_of_int n"
proof -
  let ?x = "real_of_int n"
  define e where "e = binade ?x"
  have xpos: "0 < ?x" using assms(1) by simp
  have b: "pow2 e \<le> ?x \<and> ?x < pow2 (e + 1)"
    using binade_bounds [of ?x] xpos by (simp add: e_def)
  have "pow2 0 \<le> ?x" using assms(1) by (simp add: pow2_def)
  with b have "pow2 0 < pow2 (e + 1)" by linarith
  then have "0 < e + 1" by (rule pow2_less_cancel)
  then have e0: "0 \<le> e" by simp
  have x24: "?x \<le> pow2 24" using assms(2) by (simp add: pow2_def)
  with b have "pow2 e \<le> pow2 24" by linarith
  then have e24: "e \<le> 24" by (rule pow2_le_cancel)
  have m: "max (binade ?x) (- 126) - (24 - 1) = e - 23" using e0 by (simp add: e_def)
  show ?thesis
  proof (cases "e \<le> 23")
    case True
    define d where "d = nat (23 - e)"
    have "pow2 (e - 23) = 1 / 2 ^ d"
      using True pow2_neg_nat [of d] by (simp add: d_def)
    then have g: "?x = real_of_int (n * 2 ^ d) * pow2 (e - 23)" by simp
    have "?x = real_of_int (n * 2 ^ d) * pow2 (max (binade ?x) (- 126) - (24 - 1))"
      unfolding m by (fact g)
    with xpos show ?thesis unfolding f32_def by (rule round_binary_exact)
  next
    case False
    with e24 have e: "e = 24" by simp
    with b have "pow2 24 \<le> ?x" by simp
    with x24 have "?x = pow2 24" by linarith
    then have xv: "?x = 16777216" by (simp add: pow2_def)
    have "pow2 (e - 23) = 2" by (simp add: e pow2_def)
    with xv have g: "?x = real_of_int 8388608 * pow2 (e - 23)" by simp
    have "?x = real_of_int 8388608 * pow2 (max (binade ?x) (- 126) - (24 - 1))"
      unfolding m by (fact g)
    with xpos show ?thesis unfolding f32_def by (rule round_binary_exact)
  qed
qed

lemma f32_of_int_exact:
  assumes "0 \<le> n" and "n \<le> 16777216"
  shows "f32 (real_of_int n) = real_of_int n"
proof (cases "n = 0")
  case True
  then show ?thesis by (simp add: f32_zero)
next
  case False
  with assms(1) have "0 < n" by simp
  then show ?thesis using assms(2) by (rule f32_of_nat_exact)
qed

text \<open>An integer count that converts to at most \<open>k\<close> is at most \<open>k\<close>.\<close>

lemma f32_of_int_le_imp_le:
  assumes "0 \<le> n" and "0 \<le> k" and "k < 16777216" and "f32 (real_of_int n) \<le> real_of_int k"
  shows "n \<le> k"
proof (rule ccontr)
  assume "\<not> n \<le> k"
  then have k1: "k + 1 \<le> n" by simp
  have "f32 (real_of_int (k + 1)) = real_of_int (k + 1)"
    using assms(2,3) by (intro f32_of_int_exact) simp_all
  moreover have "f32 (real_of_int (k + 1)) \<le> f32 (real_of_int n)"
    using k1 assms(2) by (intro f32_mono_nonneg) simp_all
  ultimately show False using assms(4) by simp
qed

section \<open>Properties of the sample buffer\<close>

lemma wrap32_id: "- 2147483648 \<le> v \<Longrightarrow> v < 2147483648 \<Longrightarrow> wrap32 v = v"
  by (simp add: wrap32_def)

lemma evict_suffix: "\<exists>k. evict cfg now tr = drop k tr"
proof (induction tr)
  case Nil
  show ?case by simp
next
  case (Cons s ss)
  then obtain k where k: "evict cfg now ss = drop k ss" by blast
  show ?case
  proof (cases "expired cfg now s")
    case True
    then have "evict cfg now (s # ss) = drop (Suc k) (s # ss)" using k by simp
    then show ?thesis by blast
  next
    case False
    then have "evict cfg now (s # ss) = drop 0 (s # ss)" by simp
    then show ?thesis by blast
  qed
qed

lemma evict_length: "length (evict cfg now tr) \<le> length tr"
proof -
  obtain k where "evict cfg now tr = drop k tr" using evict_suffix by blast
  then show ?thesis by simp
qed

lemma push_sample_suffix:
  "\<exists>k. push_sample trail ptNow now = drop k (trail @ [\<lparr>s_pt = ptNow, s_t = now\<rparr>])"
proof (cases "length (trail @ [\<lparr>s_pt = ptNow, s_t = now\<rparr>]) > kMaxTrailSize")
  case True
  have tl_drop1: "tl tr = drop 1 tr" for tr :: "Sample list"
    by (cases tr) simp_all
  from True have "push_sample trail ptNow now = tl (trail @ [\<lparr>s_pt = ptNow, s_t = now\<rparr>])"
    by (simp add: push_sample_def Let_def)
  then have "push_sample trail ptNow now = drop 1 (trail @ [\<lparr>s_pt = ptNow, s_t = now\<rparr>])"
    by (simp only: tl_drop1)
  then show ?thesis by blast
next
  case False
  then have "push_sample trail ptNow now = drop 0 (trail @ [\<lparr>s_pt = ptNow, s_t = now\<rparr>])"
    by (simp add: push_sample_def Let_def)
  then show ?thesis by blast
qed

lemma push_sample_length:
  "length trail \<le> kMaxTrailSize \<Longrightarrow> length (push_sample trail ptNow now) \<le> kMaxTrailSize"
  by (auto simp: push_sample_def Let_def)

lemma push_sample_last:
  "push_sample trail ptNow now \<noteq> [] \<and> last (push_sample trail ptNow now) = \<lparr>s_pt = ptNow, s_t = now\<rparr>"
proof (cases trail)
  case Nil
  then show ?thesis by (simp add: push_sample_def Let_def kMaxTrailSize_def)
next
  case (Cons a as)
  then show ?thesis by (simp add: push_sample_def Let_def)
qed

lemma evict_keeps_fresh_last:
  assumes "tr \<noteq> []" and "\<not> expired cfg now (last tr)"
  shows "evict cfg now tr \<noteq> [] \<and> last (evict cfg now tr) = last tr"
  using assms
proof (induction tr)
  case Nil
  then show ?case by simp
next
  case (Cons s ss)
  show ?case
  proof (cases "ss = []")
    case True
    with Cons.prems show ?thesis by simp
  next
    case False
    with Cons show ?thesis by simp
  qed
qed

lemma sq_bound: "\<bar>a\<bar> \<le> 32767 \<Longrightarrow> 0 \<le> a * a \<and> a * a \<le> (1073676289::int)"
proof -
  assume h: "\<bar>a\<bar> \<le> 32767"
  have "a * a = \<bar>a\<bar> * \<bar>a\<bar>" by (simp add: abs_mult_self_eq)
  moreover have "\<bar>a\<bar> * \<bar>a\<bar> \<le> 32767 * 32767" using h by (intro mult_mono) auto
  ultimately show ?thesis by simp
qed

lemma sq_dist32_exact:
  assumes "\<bar>pt_x a - pt_x b\<bar> \<le> 32767" and "\<bar>pt_y a - pt_y b\<bar> \<le> 32767"
  shows "sq_dist32 a b = sq_dist a b"
proof -
  let ?dx = "pt_x a - pt_x b" and ?dy = "pt_y a - pt_y b"
  have dx: "wrap32 ?dx = ?dx" using assms(1) by (intro wrap32_id) auto
  have dy: "wrap32 ?dy = ?dy" using assms(2) by (intro wrap32_id) auto
  define sx where "sx = ?dx * ?dx"
  define sy where "sy = ?dy * ?dy"
  have bx: "0 \<le> sx \<and> sx \<le> 1073676289" unfolding sx_def using assms(1) by (rule sq_bound)
  have by': "0 \<le> sy \<and> sy \<le> 1073676289" unfolding sy_def using assms(2) by (rule sq_bound)
  have wx: "wrap32 sx = sx" using bx by (intro wrap32_id) linarith+
  have wy: "wrap32 sy = sy" using by' by (intro wrap32_id) linarith+
  have ws: "wrap32 (sx + sy) = sx + sy"
    using bx by' by (intro wrap32_id) linarith+
  have "sq_dist32 a b = wrap32 (wrap32 sx + wrap32 sy)"
    by (simp add: sq_dist32_def Let_def dx dy sx_def sy_def)
  also have "\<dots> = sx + sy" by (simp add: wx wy ws)
  finally show ?thesis by (simp add: sq_dist_def sx_def sy_def)
qed

lemma sq_dist32_same: "sq_dist32 p p = 0"
  by (simp add: sq_dist32_def wrap32_def)

lemma trunc_div_nonneg: "0 \<le> a \<Longrightarrow> 0 < b \<Longrightarrow> trunc_div a b = a div b"
  by (cases "a = 0") (simp_all add: trunc_div_def)

lemma age_ms_mono:
  "ts \<le> ts' \<Longrightarrow> ts' \<le> now \<Longrightarrow> age_ms now ts' \<le> age_ms now ts"
  by (simp add: age_ms_def trunc_div_nonneg zdiv_mono1)

lemma age_ms_real_bound:
  assumes "ts \<le> now"
  shows "real_of_int (now - ts) / 1000000 < real_of_int (age_ms now ts) + 1"
proof -
  let ?d = "now - ts"
  have a: "age_ms now ts = ?d div 1000000" using assms by (simp add: age_ms_def trunc_div_nonneg)
  have "?d = 1000000 * (?d div 1000000) + ?d mod 1000000" by simp
  moreover have "?d mod 1000000 < 1000000" by simp
  ultimately have "?d < 1000000 * (?d div 1000000) + 1000000" by linarith
  then have "?d < 1000000 * (?d div 1000000 + 1)" by (simp add: distrib_left)
  then have "real_of_int ?d < real_of_int (1000000 * (?d div 1000000 + 1))"
    by (simp only: of_int_less_iff)
  then show ?thesis by (simp add: a field_simps)
qed

lemma age_ms_nonneg: "ts \<le> now \<Longrightarrow> 0 \<le> age_ms now ts"
  by (simp add: age_ms_def trunc_div_nonneg pos_imp_zdiv_nonneg_iff)

lemma evict_head_fresh:
  "evict cfg now tr = s # ss \<Longrightarrow> \<not> expired cfg now s"
  by (induction tr) (auto split: if_splits)

lemma sorted_drop_times: "sorted (map s_t tr) \<Longrightarrow> sorted (map s_t (drop k tr))"
  by (simp add: drop_map [symmetric] sorted_wrt_drop)

text \<open>A sample that is not older than one that passes the test passes the test.\<close>

lemma expired_mono:
  assumes "s_t h \<le> s_t s" and "s_t s \<le> now" and "\<not> expired cfg now h"
  shows "\<not> expired cfg now s"
proof -
  have "age_ms now (s_t s) \<le> age_ms now (s_t h)" using assms(1,2) by (rule age_ms_mono)
  moreover have "0 \<le> age_ms now (s_t s)" using assms(2) by (rule age_ms_nonneg)
  ultimately have "f32 (real_of_int (age_ms now (s_t s))) \<le> f32 (real_of_int (age_ms now (s_t h)))"
    by (intro f32_mono_nonneg) simp_all
  with assms(3) show ?thesis by (simp add: expired_def)
qed

lemma evict_all_fresh:
  assumes "sorted (map s_t tr)" and "\<forall>s \<in> set tr. s_t s \<le> now"
    and "s \<in> set (evict cfg now tr)"
  shows "\<not> expired cfg now s"
proof -
  obtain k where k: "evict cfg now tr = drop k tr" using evict_suffix by blast
  from assms(3) obtain h rest where hr: "evict cfg now tr = h # rest"
    by (cases "evict cfg now tr") auto
  have fresh: "\<not> expired cfg now h"
    using hr by (rule evict_head_fresh)
  have "sorted (map s_t (h # rest))"
    using assms(1) sorted_drop_times [of tr k] k hr by simp
  then have "s_t h \<le> s_t s" using assms(3) hr by auto
  moreover have "s \<in> set tr" using assms(3) k by (auto dest: in_set_dropD)
  then have "s_t s \<le> now" using assms(2) by blast
  ultimately show ?thesis using fresh by (rule expired_mono)
qed

lemma UpdateTrail_suffix:
  "\<exists>k. UpdateTrail cfg trail ptNow now =
     drop k (if should_add trail ptNow then trail @ [\<lparr>s_pt = ptNow, s_t = now\<rparr>] else trail)"
proof (cases "should_add trail ptNow")
  case True
  obtain j where j: "push_sample trail ptNow now = drop j (trail @ [\<lparr>s_pt = ptNow, s_t = now\<rparr>])"
    using push_sample_suffix by blast
  obtain k where k: "evict cfg now (push_sample trail ptNow now) = drop k (push_sample trail ptNow now)"
    using evict_suffix by blast
  have "UpdateTrail cfg trail ptNow now = evict cfg now (push_sample trail ptNow now)"
    using True by (simp add: UpdateTrail_def)
  also have "\<dots> = drop k (drop j (trail @ [\<lparr>s_pt = ptNow, s_t = now\<rparr>]))"
    using j k by (simp only:)
  also have "\<dots> = drop (k + j) (trail @ [\<lparr>s_pt = ptNow, s_t = now\<rparr>])"
    by (simp only: drop_drop)
  finally have "UpdateTrail cfg trail ptNow now = drop (k + j) (trail @ [\<lparr>s_pt = ptNow, s_t = now\<rparr>])" .
  with True show ?thesis by (simp only: if_True) blast
next
  case False
  obtain k where "evict cfg now trail = drop k trail" using evict_suffix by blast
  with False show ?thesis by (auto simp: UpdateTrail_def)
qed

text \<open>
  Claim C1. \<^verbatim>\<open>UpdateTrail\<close> appends the new sample exactly when the trail is empty or the
  \<^verbatim>\<open>int\<close> expression \<^verbatim>\<open>dx * dx + dy * dy\<close> for the last sample is at least 1; otherwise
  only the eviction loop runs. The \<^verbatim>\<open>int\<close> expression is the mathematical squared distance
  whenever both coordinate differences are at most 32767 in magnitude (no 32-bit overflow).
  An appended sample is the last element of the result (for a non-negative retention
  window). When nothing is appended, and in particular when the position equals the last
  sample's position, the buffer does not grow.
\<close>

theorem UpdateTrail_appends_iff:
  "UpdateTrail cfg trail ptNow now =
     (if trail = [] \<or> 1 \<le> sq_dist32 ptNow (s_pt (last trail))
      then evict cfg now (push_sample trail ptNow now)
      else evict cfg now trail)
   \<and> (\<bar>pt_x ptNow - pt_x (s_pt (last trail))\<bar> \<le> 32767 \<and>
       \<bar>pt_y ptNow - pt_y (s_pt (last trail))\<bar> \<le> 32767 \<longrightarrow>
       sq_dist32 ptNow (s_pt (last trail)) = sq_dist ptNow (s_pt (last trail)))
   \<and> (0 \<le> gTrailFadeMs cfg + 50 \<and> (trail = [] \<or> 1 \<le> sq_dist32 ptNow (s_pt (last trail))) \<longrightarrow>
       UpdateTrail cfg trail ptNow now \<noteq> [] \<and>
       last (UpdateTrail cfg trail ptNow now) = \<lparr>s_pt = ptNow, s_t = now\<rparr>)
   \<and> (trail \<noteq> [] \<and> \<not> 1 \<le> sq_dist32 ptNow (s_pt (last trail)) \<longrightarrow>
       length (UpdateTrail cfg trail ptNow now) \<le> length trail)
   \<and> (trail \<noteq> [] \<and> ptNow = s_pt (last trail) \<longrightarrow>
       UpdateTrail cfg trail ptNow now = evict cfg now trail \<and>
       length (UpdateTrail cfg trail ptNow now) \<le> length trail)"
proof (intro conjI impI)
  show "UpdateTrail cfg trail ptNow now =
     (if trail = [] \<or> 1 \<le> sq_dist32 ptNow (s_pt (last trail))
      then evict cfg now (push_sample trail ptNow now)
      else evict cfg now trail)"
    by (simp add: UpdateTrail_def should_add_def)
next
  assume "\<bar>pt_x ptNow - pt_x (s_pt (last trail))\<bar> \<le> 32767 \<and>
       \<bar>pt_y ptNow - pt_y (s_pt (last trail))\<bar> \<le> 32767"
  then show "sq_dist32 ptNow (s_pt (last trail)) = sq_dist ptNow (s_pt (last trail))"
    by (simp add: sq_dist32_exact)
next
  assume h: "0 \<le> gTrailFadeMs cfg + 50 \<and> (trail = [] \<or> 1 \<le> sq_dist32 ptNow (s_pt (last trail)))"
  then have u: "UpdateTrail cfg trail ptNow now = evict cfg now (push_sample trail ptNow now)"
    by (auto simp: UpdateTrail_def should_add_def)
  let ?tr = "push_sample trail ptNow now"
  have l: "?tr \<noteq> [] \<and> last ?tr = \<lparr>s_pt = ptNow, s_t = now\<rparr>" by (rule push_sample_last)
  have "0 \<le> f32 (gTrailFadeMs cfg + 50)" using h by (intro f32_nonneg) simp
  with l have "\<not> expired cfg now (last ?tr)"
    by (simp add: expired_def age_ms_def trunc_div_def f32_zero)
  with l have "evict cfg now ?tr \<noteq> [] \<and> last (evict cfg now ?tr) = last ?tr"
    by (intro evict_keeps_fresh_last) auto
  with l u show "UpdateTrail cfg trail ptNow now \<noteq> []" by simp
  from \<open>evict cfg now ?tr \<noteq> [] \<and> last (evict cfg now ?tr) = last ?tr\<close> l u
  show "last (UpdateTrail cfg trail ptNow now) = \<lparr>s_pt = ptNow, s_t = now\<rparr>" by simp
next
  assume "trail \<noteq> [] \<and> \<not> 1 \<le> sq_dist32 ptNow (s_pt (last trail))"
  then have "UpdateTrail cfg trail ptNow now = evict cfg now trail"
    by (simp add: UpdateTrail_def should_add_def)
  then show "length (UpdateTrail cfg trail ptNow now) \<le> length trail"
    by (simp add: evict_length)
next
  assume h: "trail \<noteq> [] \<and> ptNow = s_pt (last trail)"
  then show u: "UpdateTrail cfg trail ptNow now = evict cfg now trail"
    by (simp add: UpdateTrail_def should_add_def sq_dist32_same)
  then show "length (UpdateTrail cfg trail ptNow now) \<le> length trail"
    by (simp add: evict_length)
qed

text \<open>
  A move from (0,0) to (3,4) appends; a pointer resting at (3,4) does not.
\<close>

theorem UpdateTrail_appends_iff_witness:
  "UpdateTrail default_config [\<lparr>s_pt = \<lparr>pt_x = 0, pt_y = 0\<rparr>, s_t = 0\<rparr>] \<lparr>pt_x = 3, pt_y = 4\<rparr> 16000000
     = [\<lparr>s_pt = \<lparr>pt_x = 0, pt_y = 0\<rparr>, s_t = 0\<rparr>, \<lparr>s_pt = \<lparr>pt_x = 3, pt_y = 4\<rparr>, s_t = 16000000\<rparr>]
   \<and> sq_dist32 \<lparr>pt_x = 3, pt_y = 4\<rparr> \<lparr>pt_x = 0, pt_y = 0\<rparr> = 25
   \<and> sq_dist \<lparr>pt_x = 3, pt_y = 4\<rparr> \<lparr>pt_x = 0, pt_y = 0\<rparr> = 25
   \<and> UpdateTrail default_config [\<lparr>s_pt = \<lparr>pt_x = 3, pt_y = 4\<rparr>, s_t = 0\<rparr>] \<lparr>pt_x = 3, pt_y = 4\<rparr> 16000000
     = [\<lparr>s_pt = \<lparr>pt_x = 3, pt_y = 4\<rparr>, s_t = 0\<rparr>]"
  using UpdateTrail_appends_iff [of default_config "[\<lparr>s_pt = \<lparr>pt_x = 0, pt_y = 0\<rparr>, s_t = 0\<rparr>]"
      "\<lparr>pt_x = 3, pt_y = 4\<rparr>" 16000000]
    UpdateTrail_appends_iff [of default_config "[\<lparr>s_pt = \<lparr>pt_x = 3, pt_y = 4\<rparr>, s_t = 0\<rparr>]"
      "\<lparr>pt_x = 3, pt_y = 4\<rparr>" 16000000]
  by (simp add: default_config_def sq_dist32_def sq_dist_def wrap32_def push_sample_def
      kMaxTrailSize_def age_ms_def trunc_div_def expired_def float_eval)

text \<open>
  Claim C2, as stated, fails: with the default fade of 50 ms, a sample of age 100.9 ms is
  kept, because the age is truncated to whole milliseconds (100) before the comparison
  with 100.
\<close>

theorem UpdateTrail_age_counterexample:
  "UpdateTrail default_config [\<lparr>s_pt = \<lparr>pt_x = 0, pt_y = 0\<rparr>, s_t = 0\<rparr>] \<lparr>pt_x = 0, pt_y = 0\<rparr> 100900000
     = [\<lparr>s_pt = \<lparr>pt_x = 0, pt_y = 0\<rparr>, s_t = 0\<rparr>]
   \<and> \<not> real_of_int (100900000 - s_t \<lparr>s_pt = \<lparr>pt_x = 0, pt_y = 0\<rparr>, s_t = 0\<rparr>) / 1000000
         \<le> gTrailFadeMs default_config + 50"
  by (simp add: UpdateTrail_def should_add_def sq_dist32_def wrap32_def default_config_def
      age_ms_def trunc_div_def expired_def float_eval)

text \<open>
  Claim C2, amended. For a trail whose timestamps are non-decreasing and not later than
  \<open>now\<close>, every sample that remains after \<^verbatim>\<open>UpdateTrail\<close> passes the test of the
  eviction loop: its age in whole (truncated) milliseconds, converted to \<^verbatim>\<open>float\<close>, is at
  most the \<^verbatim>\<open>float\<close> sum \<^verbatim>\<open>gTrailFadeMs + 50.f\<close>. When \<open>gTrailFadeMs + 50\<close> is a
  whole number \<open>k\<close> below \<open>2 ^ 24\<close>, as for the default fade and every whole-number
  fade, the age in whole milliseconds is at most \<open>k\<close> and the exact age is below
  \<open>k + 1\<close> milliseconds.
\<close>

theorem UpdateTrail_age_bound:
  assumes "sorted (map s_t trail)" and "\<forall>s \<in> set trail. s_t s \<le> now"
  shows "\<forall>s \<in> set (UpdateTrail cfg trail ptNow now).
           f32 (real_of_int (age_ms now (s_t s))) \<le> f32 (gTrailFadeMs cfg + 50) \<and>
           (\<forall>k. 0 \<le> k \<and> k < 16777216 \<and> gTrailFadeMs cfg + 50 = real_of_int k \<longrightarrow>
                age_ms now (s_t s) \<le> k \<and>
                real_of_int (now - s_t s) / 1000000 < gTrailFadeMs cfg + 50 + 1)"
proof
  fix s assume s: "s \<in> set (UpdateTrail cfg trail ptNow now)"
  define tr where "tr = (if should_add trail ptNow then push_sample trail ptNow now else trail)"
  have u: "UpdateTrail cfg trail ptNow now = evict cfg now tr"
    by (simp add: UpdateTrail_def tr_def)
  let ?full = "trail @ [\<lparr>s_pt = ptNow, s_t = now\<rparr>]"
  have full_sorted: "sorted (map s_t ?full)"
    using assms by (auto simp: sorted_append)
  have full_le: "\<forall>s \<in> set ?full. s_t s \<le> now" using assms(2) by auto
  obtain j where j: "push_sample trail ptNow now = drop j ?full"
    using push_sample_suffix by blast
  have tr_sorted: "sorted (map s_t tr)"
    using assms(1) full_sorted j sorted_drop_times [of ?full j] by (simp add: tr_def)
  have tr_le: "\<forall>s \<in> set tr. s_t s \<le> now"
  proof (cases "should_add trail ptNow")
    case True
    then have "set tr \<subseteq> set ?full" using j set_drop_subset [of j ?full] by (simp add: tr_def)
    with full_le show ?thesis by blast
  next
    case False
    with assms(2) show ?thesis by (simp add: tr_def)
  qed
  have "\<not> expired cfg now s"
    using tr_sorted tr_le s u evict_all_fresh [of tr now s cfg] by simp
  then have a: "f32 (real_of_int (age_ms now (s_t s))) \<le> f32 (gTrailFadeMs cfg + 50)"
    by (simp add: expired_def)
  have "s \<in> set tr" using s u evict_suffix [of cfg now tr] by (auto dest: in_set_dropD)
  then have le: "s_t s \<le> now" using tr_le by blast
  have b: "age_ms now (s_t s) \<le> k \<and>
           real_of_int (now - s_t s) / 1000000 < gTrailFadeMs cfg + 50 + 1"
    if k: "0 \<le> k \<and> k < 16777216 \<and> gTrailFadeMs cfg + 50 = real_of_int k" for k
  proof -
    have "f32 (real_of_int k) = real_of_int k" using k by (intro f32_of_int_exact) simp_all
    with a k have fk: "f32 (real_of_int (age_ms now (s_t s))) \<le> real_of_int k" by simp
    have nn: "0 \<le> age_ms now (s_t s)" using le by (rule age_ms_nonneg)
    have k0: "0 \<le> k" and k24: "k < 16777216" using k by simp_all
    have ak: "age_ms now (s_t s) \<le> k"
      using nn k0 k24 fk by (rule f32_of_int_le_imp_le)
    have "real_of_int (now - s_t s) / 1000000 < real_of_int (age_ms now (s_t s)) + 1"
      using le by (rule age_ms_real_bound)
    moreover have "real_of_int (age_ms now (s_t s)) \<le> real_of_int k" using ak by simp
    ultimately have "real_of_int (now - s_t s) / 1000000 < gTrailFadeMs cfg + 50 + 1"
      using k by linarith
    with ak show ?thesis by simp
  qed
  from a b show "f32 (real_of_int (age_ms now (s_t s))) \<le> f32 (gTrailFadeMs cfg + 50) \<and>
           (\<forall>k. 0 \<le> k \<and> k < 16777216 \<and> gTrailFadeMs cfg + 50 = real_of_int k \<longrightarrow>
                age_ms now (s_t s) \<le> k \<and>
                real_of_int (now - s_t s) / 1000000 < gTrailFadeMs cfg + 50 + 1)"
    by blast
qed

text \<open>
  A trail of two samples, 101 ms and 11 ms old, at the default fade of 50 ms: the first is
  evicted, the second and the new sample stay, and their ages are at most 100 ms.
\<close>

theorem UpdateTrail_age_bound_witness:
  "UpdateTrail default_config
      [\<lparr>s_pt = \<lparr>pt_x = 0, pt_y = 0\<rparr>, s_t = 0\<rparr>, \<lparr>s_pt = \<lparr>pt_x = 5, pt_y = 0\<rparr>, s_t = 90000000\<rparr>]
      \<lparr>pt_x = 9, pt_y = 0\<rparr> 101000000
     = [\<lparr>s_pt = \<lparr>pt_x = 5, pt_y = 0\<rparr>, s_t = 90000000\<rparr>, \<lparr>s_pt = \<lparr>pt_x = 9, pt_y = 0\<rparr>, s_t = 101000000\<rparr>]
   \<and> f32 (real_of_int (age_ms 101000000 90000000)) \<le> f32 (gTrailFadeMs default_config + 50)
   \<and> age_ms 101000000 90000000 \<le> 100
   \<and> real_of_int (101000000 - 90000000) / 1000000 < gTrailFadeMs default_config + 50 + 1"
proof -
  let ?trail = "[\<lparr>s_pt = \<lparr>pt_x = 0, pt_y = 0\<rparr>, s_t = 0\<rparr>, \<lparr>s_pt = \<lparr>pt_x = 5, pt_y = 0\<rparr>, s_t = 90000000\<rparr>]"
  let ?s = "\<lparr>s_pt = \<lparr>pt_x = 5, pt_y = 0\<rparr>, s_t = 90000000\<rparr>"
  have h1: "sorted (map s_t ?trail)" by simp
  have h2: "\<forall>s \<in> set ?trail. s_t s \<le> 101000000" by simp
  have u: "UpdateTrail default_config ?trail \<lparr>pt_x = 9, pt_y = 0\<rparr> 101000000
     = [?s, \<lparr>s_pt = \<lparr>pt_x = 9, pt_y = 0\<rparr>, s_t = 101000000\<rparr>]"
    by (simp add: UpdateTrail_def should_add_def sq_dist32_def wrap32_def default_config_def
      age_ms_def trunc_div_def push_sample_def kMaxTrailSize_def expired_def float_eval)
  note t = UpdateTrail_age_bound [OF h1 h2, of default_config "\<lparr>pt_x = 9, pt_y = 0\<rparr>"]
  have "?s \<in> set (UpdateTrail default_config ?trail \<lparr>pt_x = 9, pt_y = 0\<rparr> 101000000)"
    by (simp only: u) simp
  with t have c: "f32 (real_of_int (age_ms 101000000 (s_t ?s))) \<le> f32 (gTrailFadeMs default_config + 50) \<and>
           (\<forall>k. 0 \<le> k \<and> k < 16777216 \<and> gTrailFadeMs default_config + 50 = real_of_int k \<longrightarrow>
                age_ms 101000000 (s_t ?s) \<le> k \<and>
                real_of_int (101000000 - s_t ?s) / 1000000 < gTrailFadeMs default_config + 50 + 1)"
    by blast
  have k: "(0 :: int) \<le> 100 \<and> (100 :: int) < 16777216 \<and> gTrailFadeMs default_config + 50 = real_of_int 100"
    by (simp add: default_config_def)
  from c k have "age_ms 101000000 (s_t ?s) \<le> 100 \<and>
                real_of_int (101000000 - s_t ?s) / 1000000 < gTrailFadeMs default_config + 50 + 1"
    by blast
  with c u show ?thesis by simp
qed

text \<open>
  Claim C3. For a trail of at most 500 samples, the trail after \<^verbatim>\<open>UpdateTrail\<close> has at
  most 500 samples, and it is the sequence before eviction (the old trail, with the new
  sample at the back when one is appended) with some number of entries dropped from the
  front: evictions by capacity and by age remove the oldest entries and keep the order of
  the rest.
\<close>

theorem UpdateTrail_size_order:
  assumes "length trail \<le> 500"
  shows "length (UpdateTrail cfg trail ptNow now) \<le> 500 \<and>
         (\<exists>k. UpdateTrail cfg trail ptNow now =
            drop k (if should_add trail ptNow then trail @ [\<lparr>s_pt = ptNow, s_t = now\<rparr>] else trail))"
proof
  have "length (if should_add trail ptNow then push_sample trail ptNow now else trail) \<le> 500"
    using assms push_sample_length [of trail ptNow now] by (simp add: kMaxTrailSize_def)
  then show "length (UpdateTrail cfg trail ptNow now) \<le> 500"
    using evict_length [of cfg now "if should_add trail ptNow then push_sample trail ptNow now else trail"]
    unfolding UpdateTrail_def by linarith
  show "\<exists>k. UpdateTrail cfg trail ptNow now =
            drop k (if should_add trail ptNow then trail @ [\<lparr>s_pt = ptNow, s_t = now\<rparr>] else trail)"
    by (rule UpdateTrail_suffix)
qed

text \<open>A full trail of 500 samples and a pointer that moved.\<close>

theorem UpdateTrail_size_order_witness:
  "length (replicate 500 \<lparr>s_pt = \<lparr>pt_x = 0, pt_y = 0\<rparr>, s_t = 0\<rparr>) \<le> 500
   \<and> length (UpdateTrail default_config (replicate 500 \<lparr>s_pt = \<lparr>pt_x = 0, pt_y = 0\<rparr>, s_t = 0\<rparr>)
        \<lparr>pt_x = 1, pt_y = 0\<rparr> 0) \<le> 500
   \<and> should_add (replicate 500 \<lparr>s_pt = \<lparr>pt_x = 0, pt_y = 0\<rparr>, s_t = 0\<rparr>) \<lparr>pt_x = 1, pt_y = 0\<rparr>"
  using UpdateTrail_size_order [of "replicate 500 \<lparr>s_pt = \<lparr>pt_x = 0, pt_y = 0\<rparr>, s_t = 0\<rparr>"
      default_config "\<lparr>pt_x = 1, pt_y = 0\<rparr>" 0]
  by (simp add: should_add_def sq_dist32_def wrap32_def)

section \<open>Properties of the cursor visual\<close>

text \<open>
  Claim C10. When \<^verbatim>\<open>RefreshCursorVisual\<close> is called with a cursor handle that differs from
  the cached one and \<^verbatim>\<open>GetIconInfo\<close> fails, the cached handle becomes the new handle and
  width, height and both hotspot coordinates keep their previous values. A later call with
  the same handle returns the cursor visual as it is, whatever \<^verbatim>\<open>GetIconInfo\<close> would
  answer: the query is not attempted again until the handle changes.
\<close>

theorem RefreshCursorVisual_failed_query:
  assumes "hCursor ci \<noteq> hCur cv" and "GetIconInfo (hCursor ci) = None"
  shows "RefreshCursorVisual GetIconInfo cv ci = cv\<lparr>hCur := hCursor ci\<rparr>
         \<and> hCur (RefreshCursorVisual GetIconInfo cv ci) = hCursor ci
         \<and> width (RefreshCursorVisual GetIconInfo cv ci) = width cv
         \<and> height (RefreshCursorVisual GetIconInfo cv ci) = height cv
         \<and> hotX (RefreshCursorVisual GetIconInfo cv ci) = hotX cv
         \<and> hotY (RefreshCursorVisual GetIconInfo cv ci) = hotY cv
         \<and> (\<forall>GetIconInfo' ci'. hCursor ci' = hCursor ci \<longrightarrow>
               RefreshCursorVisual GetIconInfo' (RefreshCursorVisual GetIconInfo cv ci) ci'
                 = RefreshCursorVisual GetIconInfo cv ci)"
proof -
  have r: "RefreshCursorVisual GetIconInfo cv ci = cv\<lparr>hCur := hCursor ci\<rparr>"
    using assms by (simp add: RefreshCursorVisual_def Let_def)
  have again: "RefreshCursorVisual G' (cv\<lparr>hCur := hCursor ci\<rparr>) ci' = cv\<lparr>hCur := hCursor ci\<rparr>"
    if "hCursor ci' = hCursor ci" for G' ci'
    using that by (simp add: RefreshCursorVisual_def)
  show ?thesis
    unfolding r using again by simp
qed

text \<open>
  A cached 48 by 40 cursor with handle 7, a new handle 9 and a failing query; then a
  second call with handle 9 and a query that would succeed.
\<close>

theorem RefreshCursorVisual_failed_query_witness:
  "RefreshCursorVisual (\<lambda>h. None) \<lparr>hCur = 7, width = 48, height = 40, hotX = 3, hotY = 5\<rparr>
       \<lparr>flags = 1, hCursor = 9\<rparr>
     = \<lparr>hCur = 9, width = 48, height = 40, hotX = 3, hotY = 5\<rparr>
   \<and> RefreshCursorVisual
       (\<lambda>h. Some \<lparr>xHotspot = 0, yHotspot = 0, hbmMask = None,
                   hbmColor = Some \<lparr>bmWidth = 32, bmHeight = 32\<rparr>\<rparr>)
       (RefreshCursorVisual (\<lambda>h. None) \<lparr>hCur = 7, width = 48, height = 40, hotX = 3, hotY = 5\<rparr>
          \<lparr>flags = 1, hCursor = 9\<rparr>)
       \<lparr>flags = 1, hCursor = 9\<rparr>
     = \<lparr>hCur = 9, width = 48, height = 40, hotX = 3, hotY = 5\<rparr>"
proof -
  let ?ci = "\<lparr>flags = 1, hCursor = 9\<rparr>"
  let ?cv = "\<lparr>hCur = 7, width = 48, height = 40, hotX = 3, hotY = 5\<rparr>"
  let ?G = "\<lambda>h. Some \<lparr>xHotspot = 0, yHotspot = 0, hbmMask = None,
                   hbmColor = Some \<lparr>bmWidth = 32, bmHeight = 32\<rparr>\<rparr>"
  have h1: "hCursor ?ci \<noteq> hCur ?cv" by simp
  have h2: "(\<lambda>h. None) (hCursor ?ci) = (None :: ICONINFO option)" by simp
  note t = RefreshCursorVisual_failed_query [of ?ci ?cv "\<lambda>h. None", OF h1 h2]
  from t have eq: "RefreshCursorVisual (\<lambda>h. None) ?cv ?ci = ?cv\<lparr>hCur := hCursor ?ci\<rparr>"
    by blast
  from t have again: "RefreshCursorVisual ?G (RefreshCursorVisual (\<lambda>h. None) ?cv ?ci) ?ci
      = RefreshCursorVisual (\<lambda>h. None) ?cv ?ci"
    by blast
  show ?thesis using eq again by simp
qed

section \<open>Properties of the main loop iteration\<close>

text \<open>
  Claim C4, as stated, fails: \<^verbatim>\<open>UpdateTrail\<close> is called before the visibility check, so a
  tick with a hidden pointer and an empty trail appends the sampled position.
\<close>

theorem tick_hidden_appends_counterexample:
  "pointer_hidden
      \<lparr>env_quit = False, env_lastTick = 0, env_GetCursorPos = Some \<lparr>pt_x = 5, pt_y = 5\<rparr>,
       env_resize_ok = True, env_GetCursorInfo = Some \<lparr>flags = 0, hCursor = 9\<rparr>,
       env_now = 0, env_GetIconInfo = (\<lambda>h. None)\<rparr>
   \<and> tick default_config
      \<lparr>env_quit = False, env_lastTick = 0, env_GetCursorPos = Some \<lparr>pt_x = 5, pt_y = 5\<rparr>,
       env_resize_ok = True, env_GetCursorInfo = Some \<lparr>flags = 0, hCursor = 9\<rparr>,
       env_now = 0, env_GetIconInfo = (\<lambda>h. None)\<rparr>
      [] \<lparr>hCur = 0, width = 0, height = 0, hotX = 0, hotY = 0\<rparr>
     = Some ([\<lparr>s_pt = \<lparr>pt_x = 5, pt_y = 5\<rparr>, s_t = 0\<rparr>],
             \<lparr>hCur = 0, width = 0, height = 0, hotX = 0, hotY = 0\<rparr>, True)"
  by (simp add: pointer_hidden_def CURSOR_SHOWING_def tick_def sampled_pos_def UpdateTrail_def
      should_add_def push_sample_def kMaxTrailSize_def default_config_def age_ms_def trunc_div_def
      expired_def float_eval)

text \<open>
  Claim C4, amended. On a tick in which the pointer is hidden or unavailable (and the
  program does not exit), the trail is first updated by \<^verbatim>\<open>UpdateTrail\<close> with the
  sampled position, and the hidden-pointer branch then only removes expired entries from
  the front, leaving the cursor visual as it is. \<^verbatim>\<open>UpdateTrail\<close> appends the sampled
  position when the trail is empty or the position differs from the last sample's;
  when it does not append, the whole tick only removes entries from the front.
\<close>

theorem tick_hidden:
  assumes "pointer_hidden env" and "\<not> env_quit env" and "env_resize_ok env"
  shows "tick cfg env trail cv =
           Some (evict cfg (env_now env) (UpdateTrail cfg trail (sampled_pos env) (env_lastTick env)),
                 cv,
                 evict cfg (env_now env) (UpdateTrail cfg trail (sampled_pos env) (env_lastTick env)) \<noteq> [])
         \<and> (\<exists>k. evict cfg (env_now env) (UpdateTrail cfg trail (sampled_pos env) (env_lastTick env))
                  = drop k (UpdateTrail cfg trail (sampled_pos env) (env_lastTick env)))
         \<and> (\<not> should_add trail (sampled_pos env) \<longrightarrow>
              (\<exists>k. evict cfg (env_now env) (UpdateTrail cfg trail (sampled_pos env) (env_lastTick env))
                  = drop k trail))
         \<and> (should_add trail (sampled_pos env) \<longrightarrow>
              UpdateTrail cfg trail (sampled_pos env) (env_lastTick env)
                = evict cfg (env_lastTick env) (push_sample trail (sampled_pos env) (env_lastTick env)))"
proof (intro conjI impI)
  show "tick cfg env trail cv =
           Some (evict cfg (env_now env) (UpdateTrail cfg trail (sampled_pos env) (env_lastTick env)),
                 cv,
                 evict cfg (env_now env) (UpdateTrail cfg trail (sampled_pos env) (env_lastTick env)) \<noteq> [])"
    using assms by (auto simp: tick_def pointer_hidden_def Let_def split: option.splits)
  show "\<exists>k. evict cfg (env_now env) (UpdateTrail cfg trail (sampled_pos env) (env_lastTick env))
                  = drop k (UpdateTrail cfg trail (sampled_pos env) (env_lastTick env))"
    by (rule evict_suffix)
next
  assume na: "\<not> should_add trail (sampled_pos env)"
  obtain j where j: "evict cfg (env_lastTick env) trail = drop j trail"
    using evict_suffix by blast
  obtain k where k: "evict cfg (env_now env) (drop j trail) = drop k (drop j trail)"
    using evict_suffix by blast
  have "evict cfg (env_now env) (UpdateTrail cfg trail (sampled_pos env) (env_lastTick env))
          = drop (k + j) trail"
    using na j k by (simp add: UpdateTrail_def)
  then show "\<exists>k. evict cfg (env_now env) (UpdateTrail cfg trail (sampled_pos env) (env_lastTick env))
                  = drop k trail" by blast
next
  assume "should_add trail (sampled_pos env)"
  then show "UpdateTrail cfg trail (sampled_pos env) (env_lastTick env)
                = evict cfg (env_lastTick env) (push_sample trail (sampled_pos env) (env_lastTick env))"
    by (simp add: UpdateTrail_def)
qed

text \<open>
  A hidden pointer that rests on the last sample: the sample aged 120 ms is evicted, the
  one aged 20 ms stays, nothing is appended.
\<close>

theorem tick_hidden_witness:
  "pointer_hidden
      \<lparr>env_quit = False, env_lastTick = 120000000, env_GetCursorPos = Some \<lparr>pt_x = 5, pt_y = 5\<rparr>,
       env_resize_ok = True, env_GetCursorInfo = None,
       env_now = 120000000, env_GetIconInfo = (\<lambda>h. None)\<rparr>
   \<and> tick default_config
      \<lparr>env_quit = False, env_lastTick = 120000000, env_GetCursorPos = Some \<lparr>pt_x = 5, pt_y = 5\<rparr>,
       env_resize_ok = True, env_GetCursorInfo = None,
       env_now = 120000000, env_GetIconInfo = (\<lambda>h. None)\<rparr>
      [\<lparr>s_pt = \<lparr>pt_x = 1, pt_y = 1\<rparr>, s_t = 0\<rparr>, \<lparr>s_pt = \<lparr>pt_x = 5, pt_y = 5\<rparr>, s_t = 100000000\<rparr>]
      \<lparr>hCur = 9, width = 32, height = 32, hotX = 0, hotY = 0\<rparr>
     = Some ([\<lparr>s_pt = \<lparr>pt_x = 5, pt_y = 5\<rparr>, s_t = 100000000\<rparr>],
             \<lparr>hCur = 9, width = 32, height = 32, hotX = 0, hotY = 0\<rparr>, True)"
  using tick_hidden [of
      "\<lparr>env_quit = False, env_lastTick = 120000000, env_GetCursorPos = Some \<lparr>pt_x = 5, pt_y = 5\<rparr>,
       env_resize_ok = True, env_GetCursorInfo = None,
       env_now = 120000000, env_GetIconInfo = (\<lambda>h. None)\<rparr>"
      default_config
      "[\<lparr>s_pt = \<lparr>pt_x = 1, pt_y = 1\<rparr>, s_t = 0\<rparr>, \<lparr>s_pt = \<lparr>pt_x = 5, pt_y = 5\<rparr>, s_t = 100000000\<rparr>]"
      "\<lparr>hCur = 9, width = 32, height = 32, hotX = 0, hotY = 0\<rparr>"]
  by (simp add: pointer_hidden_def sampled_pos_def UpdateTrail_def should_add_def sq_dist32_def
      wrap32_def default_config_def age_ms_def trunc_div_def expired_def float_eval)

section \<open>Properties of the tint\<close>

lemma byte_product_bound:
  fixes c t :: BYTE
  shows "0 \<le> uint c * uint t \<and> uint c * uint t div 255 \<le> 255"
proof -
  have c: "0 \<le> uint c \<and> uint c \<le> 255" using uint_lt2p [of c] by simp
  have t: "0 \<le> uint t \<and> uint t \<le> 255" using uint_lt2p [of t] by simp
  have "uint c * uint t \<le> 255 * 255" using c t by (intro mult_mono) auto
  then have "uint c * uint t div 255 \<le> (255 * 255) div 255" by (rule zdiv_mono1) simp
  moreover have "0 \<le> uint c * uint t" using c t by simp
  ultimately show ?thesis by simp
qed

lemma tint_channel_uint: "uint (tint_channel c t) = uint c * uint t div 255"
proof -
  let ?v = "uint c * uint t"
  have b: "0 \<le> ?v \<and> ?v div 255 \<le> 255" by (rule byte_product_bound)
  then have nn: "0 \<le> ?v div 255" by (simp add: pos_imp_zdiv_nonneg_iff)
  have td: "trunc_div ?v 255 = ?v div 255"
    using b by (intro trunc_div_nonneg) simp_all
  have "uint (word_of_int (?v div 255) :: BYTE) = ?v div 255"
    using b nn by (simp add: uint_word_of_int take_bit_int_eq_self)
  then show ?thesis by (simp add: tint_channel_def td)
qed

lemma tint_channel_255: "tint_channel c 255 = c"
proof -
  have "uint (tint_channel c 255) = uint c" by (simp add: tint_channel_uint)
  then show ?thesis by (simp only: word_uint_eq_iff)
qed

lemma tint_channel_0: "tint_channel c 0 = 0"
proof -
  have "uint (tint_channel c 0) = uint (0 :: BYTE)" by (simp add: tint_channel_uint)
  then show ?thesis by (simp only: word_uint_eq_iff)
qed

lemma tint_loop_length: "length (tint_loop cfg n px) = length px"
  by (induction cfg n px rule: tint_loop.induct) simp_all

lemma tint_loop_nth:
  "i < n \<Longrightarrow> i < length px \<Longrightarrow> tint_loop cfg n px ! i = tint_pixel cfg (px ! i)"
proof (induction cfg n px arbitrary: i rule: tint_loop.induct)
  case (1 cfg px)
  then show ?case by simp
next
  case (2 cfg n)
  then show ?case by simp
next
  case (3 cfg n p px)
  then show ?case by (cases i) simp_all
qed

lemma tint_loop_id: "(\<And>p. tint_pixel cfg p = p) \<Longrightarrow> tint_loop cfg n px = px"
  by (induction cfg n px rule: tint_loop.induct) simp_all

text \<open>
  Claim C8. The tint loop replaces each colour byte of a pixel by the byte times the
  corresponding tint byte, divided by 255 with integer division, and leaves the alpha byte
  \<^verbatim>\<open>p[3]\<close> as it is; it does so for every pixel below the count and keeps the length of
  the buffer. With the tint (255, 255, 255) every pixel, and so the whole buffer, is
  unchanged; with the tint (0, 0, 0) every colour byte becomes 0 and the alpha byte stays.
\<close>

theorem tint_pixel_spec:
  "uint (p2 (tint_pixel cfg p)) = uint (p2 p) * uint (TintR cfg) div 255
   \<and> uint (p1 (tint_pixel cfg p)) = uint (p1 p) * uint (TintG cfg) div 255
   \<and> uint (p0 (tint_pixel cfg p)) = uint (p0 p) * uint (TintB cfg) div 255
   \<and> p3 (tint_pixel cfg p) = p3 p
   \<and> length (tint_loop cfg n px) = length px
   \<and> (i < n \<and> i < length px \<longrightarrow> tint_loop cfg n px ! i = tint_pixel cfg (px ! i))
   \<and> (TintR cfg = 255 \<and> TintG cfg = 255 \<and> TintB cfg = 255 \<longrightarrow>
        tint_pixel cfg p = p \<and> tint_loop cfg n px = px)
   \<and> (TintR cfg = 0 \<and> TintG cfg = 0 \<and> TintB cfg = 0 \<longrightarrow>
        tint_pixel cfg p = \<lparr>p0 = 0, p1 = 0, p2 = 0, p3 = p3 p\<rparr>)"
proof (intro conjI impI)
  show "uint (p2 (tint_pixel cfg p)) = uint (p2 p) * uint (TintR cfg) div 255"
    by (simp add: tint_pixel_def tint_channel_uint)
  show "uint (p1 (tint_pixel cfg p)) = uint (p1 p) * uint (TintG cfg) div 255"
    by (simp add: tint_pixel_def tint_channel_uint)
  show "uint (p0 (tint_pixel cfg p)) = uint (p0 p) * uint (TintB cfg) div 255"
    by (simp add: tint_pixel_def tint_channel_uint)
  show "p3 (tint_pixel cfg p) = p3 p"
    by (simp add: tint_pixel_def)
  show "length (tint_loop cfg n px) = length px"
    by (rule tint_loop_length)
next
  assume "i < n \<and> i < length px"
  then show "tint_loop cfg n px ! i = tint_pixel cfg (px ! i)"
    by (simp add: tint_loop_nth)
next
  assume w: "TintR cfg = 255 \<and> TintG cfg = 255 \<and> TintB cfg = 255"
  then have idp: "tint_pixel cfg q = q" for q
    by (simp add: tint_pixel_def tint_channel_255)
  then show "tint_pixel cfg p = p" .
  from idp show "tint_loop cfg n px = px" by (rule tint_loop_id)
next
  assume "TintR cfg = 0 \<and> TintG cfg = 0 \<and> TintB cfg = 0"
  then show "tint_pixel cfg p = \<lparr>p0 = 0, p1 = 0, p2 = 0, p3 = p3 p\<rparr>"
    by (simp add: tint_pixel_def tint_channel_0)
qed

text \<open>
  The white tint on a buffer of two pixels, the black tint, and a red tint of 128 on a red
  byte of 200.
\<close>

theorem tint_pixel_spec_witness:
  "tint_pixel default_config \<lparr>p0 = 10, p1 = 20, p2 = 30, p3 = 40\<rparr>
     = \<lparr>p0 = 10, p1 = 20, p2 = 30, p3 = 40\<rparr>
   \<and> tint_loop default_config 2 [\<lparr>p0 = 10, p1 = 20, p2 = 30, p3 = 40\<rparr>, \<lparr>p0 = 1, p1 = 2, p2 = 3, p3 = 4\<rparr>]
     = [\<lparr>p0 = 10, p1 = 20, p2 = 30, p3 = 40\<rparr>, \<lparr>p0 = 1, p1 = 2, p2 = 3, p3 = 4\<rparr>]
   \<and> tint_pixel (default_config\<lparr>TintR := 0, TintG := 0, TintB := 0\<rparr>) \<lparr>p0 = 10, p1 = 20, p2 = 30, p3 = 40\<rparr>
     = \<lparr>p0 = 0, p1 = 0, p2 = 0, p3 = 40\<rparr>
   \<and> uint (p2 (tint_pixel (default_config\<lparr>TintR := 128\<rparr>) \<lparr>p0 = 10, p1 = 20, p2 = 200, p3 = 40\<rparr>)) = 100"
  using tint_pixel_spec [of default_config "\<lparr>p0 = 10, p1 = 20, p2 = 30, p3 = 40\<rparr>" 2
      "[\<lparr>p0 = 10, p1 = 20, p2 = 30, p3 = 40\<rparr>, \<lparr>p0 = 1, p1 = 2, p2 = 3, p3 = 4\<rparr>]" 0]
    tint_pixel_spec [of "default_config\<lparr>TintR := 0, TintG := 0, TintB := 0\<rparr>"
      "\<lparr>p0 = 10, p1 = 20, p2 = 30, p3 = 40\<rparr>" 0 "[]" 0]
    tint_pixel_spec [of "default_config\<lparr>TintR := 128\<rparr>"
      "\<lparr>p0 = 10, p1 = 20, p2 = 200, p3 = 40\<rparr>" 0 "[]" 0]
  by (simp add: default_config_def)

section \<open>Properties of the blend loop\<close>

lemma clamp_real_range: "lo \<le> hi \<Longrightarrow> lo \<le> clamp_real v lo hi \<and> clamp_real v lo hi \<le> hi"
  by (simp add: clamp_real_def)

lemma step_alpha_real_range:
  "0 \<le> step_alpha_real cfg age0 d t \<and> step_alpha_real cfg age0 d t \<le> 255"
  unfolding step_alpha_real_def by (rule clamp_real_range) simp

lemma step_alpha_uint: "uint (step_alpha cfg age0 d t) = \<lfloor>step_alpha_real cfg age0 d t\<rfloor>"
proof -
  let ?v = "step_alpha_real cfg age0 d t"
  have r: "0 \<le> ?v \<and> ?v \<le> 255" by (rule step_alpha_real_range)
  then have "0 \<le> \<lfloor>?v\<rfloor> \<and> \<lfloor>?v\<rfloor> \<le> 255" by (simp add: floor_le_iff le_floor_iff)
  then have "uint (word_of_int \<lfloor>?v\<rfloor> :: BYTE) = \<lfloor>?v\<rfloor>"
    by (simp add: uint_word_of_int take_bit_int_eq_self)
  then show ?thesis by (simp add: step_alpha_def)
qed

lemma step_alpha_less_3: "step_alpha cfg age0 d t < 3 \<longleftrightarrow> step_alpha_real cfg age0 d t < 3"
proof -
  have "step_alpha cfg age0 d t < 3 \<longleftrightarrow> uint (step_alpha cfg age0 d t) < uint (3 :: BYTE)"
    by (rule word_less_def)
  also have "\<dots> \<longleftrightarrow> \<lfloor>step_alpha_real cfg age0 d t\<rfloor> < 3"
    by (simp add: step_alpha_uint)
  also have "\<dots> \<longleftrightarrow> step_alpha_real cfg age0 d t < 3"
    by (simp add: floor_less_iff)
  finally show ?thesis .
qed

lemma step_alpha_real_zero:
  "step_fade cfg age0 t = 0 \<or> speed_factor cfg d = 0 \<Longrightarrow> step_alpha_real cfg age0 d t = 0"
  by (auto simp: step_alpha_real_def clamp_real_def f32_zero)

lemma step_loop_concat: "step_loop body n = concat (map body (rev [0..<Suc n]))"
  by (induction n) simp_all

lemma step_blend_cases:
  "step_blend cfg cv vs s0 dx dy age0 d steps j =
     (if step_alpha cfg age0 d (step_t steps j) < 3 then []
      else [\<lparr>dstX = wrap32 (wrap32 (lround (f32 (f32 (real_of_int (pt_x (s_pt s0))) + f32 (dx * step_t steps j))) - rc_left vs) - hotX cv),
              dstY = wrap32 (wrap32 (lround (f32 (f32 (real_of_int (pt_y (s_pt s0))) + f32 (dy * step_t steps j))) - rc_top vs) - hotY cv),
              alpha = step_alpha cfg age0 d (step_t steps j)\<rparr>])"
  by (simp add: step_blend_def Let_def)

text \<open>
  Claim C6, amended. The blend calls of a rendered pair are those of its steps
  \<open>j = steps\<close> down to \<open>0\<close>, and a pair that is skipped issues none. For every step,
  the alpha of the blend is the \<^verbatim>\<open>BYTE\<close> cast, that is the integer part, of
  \<open>clamp (maxAlpha * fade * speedFactor, 0, 255)\<close> computed in \<^verbatim>\<open>float\<close> arithmetic,
  every operation rounded to binary32, with
  \<open>fade = max 0 (1 - (age0 + age0 * t * 0.1f) / fadeDurationMs)\<close> and
  \<open>speedFactor = clamp (dist * sensitivity, 0, 1)\<close>, where \<open>age0\<close> is the age of the
  older sample in whole milliseconds, \<open>dist\<close> the rounded distance and \<open>t\<close> the
  rounded fraction of the step. A step issues at most one blend call, it issues one exactly
  when this alpha is at least 3, which is exactly when the rounded, clamped product is at
  least 3, and the call carries this alpha. A step with fade 0 or speed factor 0 has alpha 0
  and issues no blend call.
\<close>

theorem step_alpha_spec:
  "pair_blends cfg cv vs now s0 s1 =
     (if gTrailFadeMs cfg < pair_age0 now s0 \<or> pair_distSq s0 s1 < 1 \<or> pair_steps s0 s1 < 0 then []
      else concat (map (step_blend cfg cv vs s0 (pair_dx s0 s1) (pair_dy s0 s1) (pair_age0 now s0)
                          (pair_dist s0 s1) (pair_steps s0 s1))
                    (rev [0..<Suc (nat (pair_steps s0 s1))])))
   \<and> pair_age0 now s0 = f32 (real_of_int (age_ms now (s_t s0)))
   \<and> pair_dist s0 s1 = f32 (sqrt (pair_distSq s0 s1))
   \<and> pair_steps s0 s1 = \<lceil>pair_dist s0 s1\<rceil>
   \<and> step_t steps j = f32 (f32 (real j) * f32 (1 / f32 (real_of_int steps)))
   \<and> (step_blend cfg cv vs s0 dx dy age0 d steps j \<noteq> [] \<longleftrightarrow>
        3 \<le> step_alpha cfg age0 d (step_t steps j))
   \<and> length (step_blend cfg cv vs s0 dx dy age0 d steps j) \<le> 1
   \<and> (\<forall>op \<in> set (step_blend cfg cv vs s0 dx dy age0 d steps j).
        alpha op = step_alpha cfg age0 d (step_t steps j) \<and> 3 \<le> alpha op)
   \<and> uint (step_alpha cfg age0 d t) =
        \<lfloor>clamp_real
           (f32 (f32 (real (unat (gTrailMaxAlpha cfg))
                      * max 0 (f32 (1 - f32 (f32 (age0 + f32 (f32 (age0 * t) * f32 (1 / 10)))
                                              / gTrailFadeMs cfg))))
                 * clamp_real (f32 (d * gSensitivity cfg)) 0 1))
           0 255\<rfloor>
   \<and> (3 \<le> step_alpha cfg age0 d t \<longleftrightarrow>
        3 \<le> clamp_real
               (f32 (f32 (real (unat (gTrailMaxAlpha cfg))
                          * max 0 (f32 (1 - f32 (f32 (age0 + f32 (f32 (age0 * t) * f32 (1 / 10)))
                                                  / gTrailFadeMs cfg))))
                     * clamp_real (f32 (d * gSensitivity cfg)) 0 1))
               0 255)
   \<and> (max 0 (f32 (1 - f32 (f32 (age0 + f32 (f32 (age0 * t) * f32 (1 / 10))) / gTrailFadeMs cfg))) = 0
        \<or> clamp_real (f32 (d * gSensitivity cfg)) 0 1 = 0 \<longrightarrow>
        step_alpha cfg age0 d t = 0
        \<and> (t = step_t steps j \<longrightarrow> step_blend cfg cv vs s0 dx dy age0 d steps j = []))"
proof (intro conjI impI ballI)
  show "pair_blends cfg cv vs now s0 s1 =
     (if gTrailFadeMs cfg < pair_age0 now s0 \<or> pair_distSq s0 s1 < 1 \<or> pair_steps s0 s1 < 0 then []
      else concat (map (step_blend cfg cv vs s0 (pair_dx s0 s1) (pair_dy s0 s1) (pair_age0 now s0)
                          (pair_dist s0 s1) (pair_steps s0 s1))
                    (rev [0..<Suc (nat (pair_steps s0 s1))])))"
    by (simp add: pair_blends_def step_loop_concat)
  show "pair_age0 now s0 = f32 (real_of_int (age_ms now (s_t s0)))"
    by (rule pair_age0_def)
  show "pair_dist s0 s1 = f32 (sqrt (pair_distSq s0 s1))"
    by (rule pair_dist_def)
  show "pair_steps s0 s1 = \<lceil>pair_dist s0 s1\<rceil>"
    by (rule pair_steps_def)
  show "step_t steps j = f32 (f32 (real j) * f32 (1 / f32 (real_of_int steps)))"
    by (rule step_t_def)
  have nl: "a < 3 \<longleftrightarrow> \<not> 3 \<le> a" for a :: BYTE
    by (rule not_le [symmetric])
  show "step_blend cfg cv vs s0 dx dy age0 d steps j \<noteq> [] \<longleftrightarrow>
        3 \<le> step_alpha cfg age0 d (step_t steps j)"
    by (simp add: step_blend_cases nl)
  show "length (step_blend cfg cv vs s0 dx dy age0 d steps j) \<le> 1"
    by (simp add: step_blend_cases)
  show "uint (step_alpha cfg age0 d t) =
        \<lfloor>clamp_real
           (f32 (f32 (real (unat (gTrailMaxAlpha cfg))
                      * max 0 (f32 (1 - f32 (f32 (age0 + f32 (f32 (age0 * t) * f32 (1 / 10)))
                                              / gTrailFadeMs cfg))))
                 * clamp_real (f32 (d * gSensitivity cfg)) 0 1))
           0 255\<rfloor>"
    by (simp only: step_alpha_uint step_alpha_real_def step_fade_def speed_factor_def)
  have "3 \<le> step_alpha cfg age0 d t \<longleftrightarrow> 3 \<le> step_alpha_real cfg age0 d t"
    using step_alpha_less_3 [of cfg age0 d t] by (simp only: not_less [symmetric])
  then show "3 \<le> step_alpha cfg age0 d t \<longleftrightarrow>
        3 \<le> clamp_real
               (f32 (f32 (real (unat (gTrailMaxAlpha cfg))
                          * max 0 (f32 (1 - f32 (f32 (age0 + f32 (f32 (age0 * t) * f32 (1 / 10)))
                                                  / gTrailFadeMs cfg))))
                     * clamp_real (f32 (d * gSensitivity cfg)) 0 1))
               0 255"
    by (simp only: step_alpha_real_def step_fade_def speed_factor_def)
next
  fix op assume op: "op \<in> set (step_blend cfg cv vs s0 dx dy age0 d steps j)"
  have nl: "a < 3 \<longleftrightarrow> \<not> 3 \<le> a" for a :: BYTE
    by (rule not_le [symmetric])
  from op show "alpha op = step_alpha cfg age0 d (step_t steps j)"
    by (simp add: step_blend_cases split: if_splits)
  from op show "3 \<le> alpha op"
    by (simp add: step_blend_cases nl split: if_splits)
next
  assume z: "max 0 (f32 (1 - f32 (f32 (age0 + f32 (f32 (age0 * t) * f32 (1 / 10))) / gTrailFadeMs cfg))) = 0
        \<or> clamp_real (f32 (d * gSensitivity cfg)) 0 1 = 0"
  then have "step_fade cfg age0 t = 0 \<or> speed_factor cfg d = 0"
    by (simp only: step_fade_def speed_factor_def)
  then have r0: "step_alpha_real cfg age0 d t = 0" by (rule step_alpha_real_zero)
  then show a0: "step_alpha cfg age0 d t = 0" by (simp add: step_alpha_def)
  assume "t = step_t steps j"
  with a0 show "step_blend cfg cv vs s0 dx dy age0 d steps j = []"
    by (simp add: step_blend_cases)
qed

lemma cfg_fields:
  "gSensitivity (default_config\<lparr>gSensitivity := a, gTrailMaxAlpha := m\<rparr>) = a"
  "gTrailFadeMs (default_config\<lparr>gSensitivity := a, gTrailMaxAlpha := m\<rparr>) = 50"
  "gTrailMaxAlpha (default_config\<lparr>gSensitivity := a, gTrailMaxAlpha := m\<rparr>) = m"
  by (simp_all add: default_config_def)

lemma f32_small: "f32 0 = 0" "f32 1 = 1" "f32 25 = 25" "f32 40 = 40"
  by (simp_all add: float_eval)

lemma fade_25_1: "step_fade (default_config\<lparr>gSensitivity := 1, gTrailMaxAlpha := m\<rparr>) 25 1 = 7549747 / 16777216"
  by (simp add: step_fade_def cfg_fields float_eval)

lemma fade_25_0: "step_fade (default_config\<lparr>gSensitivity := 1, gTrailMaxAlpha := m\<rparr>) 25 0 = 1 / 2"
  by (simp add: step_fade_def cfg_fields float_eval)

lemma fade_40_1: "step_fade (default_config\<lparr>gSensitivity := 1, gTrailMaxAlpha := m\<rparr>) 40 1 = 2013266 / 16777216"
  by (simp add: step_fade_def cfg_fields float_eval)

lemma fade_40_0: "step_fade (default_config\<lparr>gSensitivity := 1, gTrailMaxAlpha := m\<rparr>) 40 0 = 3355443 / 16777216"
  by (simp add: step_fade_def cfg_fields float_eval)

lemma speed_1: "speed_factor (default_config\<lparr>gSensitivity := 1, gTrailMaxAlpha := m\<rparr>) 1 = 1"
  by (simp add: speed_factor_def cfg_fields clamp_real_def float_eval)

lemma alpha_11_25_1: "step_alpha (default_config\<lparr>gSensitivity := 1, gTrailMaxAlpha := 11\<rparr>) 25 1 1 = 4"
  by (simp add: step_alpha_def step_alpha_real_def fade_25_1 speed_1 cfg_fields clamp_real_def float_eval)

lemma alpha_11_25_0: "step_alpha (default_config\<lparr>gSensitivity := 1, gTrailMaxAlpha := 11\<rparr>) 25 1 0 = 5"
  by (simp add: step_alpha_def step_alpha_real_def fade_25_0 speed_1 cfg_fields clamp_real_def float_eval)

lemma alpha_15_40_1: "step_alpha (default_config\<lparr>gSensitivity := 1, gTrailMaxAlpha := 15\<rparr>) 40 1 1 = 1"
  by (simp add: step_alpha_def step_alpha_real_def fade_40_1 speed_1 cfg_fields clamp_real_def float_eval)

lemma alpha_15_40_0: "step_alpha (default_config\<lparr>gSensitivity := 1, gTrailMaxAlpha := 15\<rparr>) 40 1 0 = 2"
  by (simp add: step_alpha_def step_alpha_real_def fade_40_0 speed_1 cfg_fields clamp_real_def float_eval)

lemma unit_pair:
  "pair_dx \<lparr>s_pt = \<lparr>pt_x = 0, pt_y = 0\<rparr>, s_t = a\<rparr> \<lparr>s_pt = \<lparr>pt_x = 1, pt_y = 0\<rparr>, s_t = b\<rparr> = 1"
  "pair_dy \<lparr>s_pt = \<lparr>pt_x = 0, pt_y = 0\<rparr>, s_t = a\<rparr> \<lparr>s_pt = \<lparr>pt_x = 1, pt_y = 0\<rparr>, s_t = b\<rparr> = 0"
  "pair_distSq \<lparr>s_pt = \<lparr>pt_x = 0, pt_y = 0\<rparr>, s_t = a\<rparr> \<lparr>s_pt = \<lparr>pt_x = 1, pt_y = 0\<rparr>, s_t = b\<rparr> = 1"
  "pair_dist \<lparr>s_pt = \<lparr>pt_x = 0, pt_y = 0\<rparr>, s_t = a\<rparr> \<lparr>s_pt = \<lparr>pt_x = 1, pt_y = 0\<rparr>, s_t = b\<rparr> = 1"
  "pair_steps \<lparr>s_pt = \<lparr>pt_x = 0, pt_y = 0\<rparr>, s_t = a\<rparr> \<lparr>s_pt = \<lparr>pt_x = 1, pt_y = 0\<rparr>, s_t = b\<rparr> = 1"
  by (simp_all add: pair_steps_def pair_dist_def pair_distSq_def pair_dx_def pair_dy_def wrap32_def f32_small)

lemma step_t_1: "step_t 1 0 = 0" "step_t 1 (Suc 0) = 1"
  by (simp_all add: step_t_def f32_small)

lemma age0_vals:
  "pair_age0 25000000 \<lparr>s_pt = p, s_t = 0\<rparr> = 25"
  "pair_age0 40000000 \<lparr>s_pt = p, s_t = 0\<rparr> = 40"
  by (simp_all add: pair_age0_def age_ms_def trunc_div_def f32_small)

lemma lround_small: "lround 0 = 0" "lround 1 = 1"
  by (simp_all add: lround_def)

text \<open>
  Claim C6, as stated, fails in two ways. The alpha of a step is the \<^verbatim>\<open>BYTE\<close> cast of
  the clamped product: with maximal alpha 11, sensitivity 1 and fade 50 ms, the step at
  \<open>t = 0\<close> of a pair whose older sample is 25 ms old has the product 5.5 and is blended
  with alpha 5. And the product is computed in binary32: with maximal alpha 15 and an older
  sample of 40 ms, the formula over the reals gives exactly 3 at \<open>t = 0\<close>, but 40 / 50
  rounds up, the \<^verbatim>\<open>float\<close> product is below 3, the alpha is 2 and the pair issues no blend
  call at all.
\<close>

theorem step_alpha_counterexample:
  "trail_blends (default_config\<lparr>gSensitivity := 1, gTrailMaxAlpha := 11\<rparr>)
      \<lparr>hCur = 9, width = 32, height = 32, hotX = 0, hotY = 0\<rparr>
      \<lparr>rc_left = 0, rc_top = 0, rc_right = 1920, rc_bottom = 1080\<rparr>
      25000000
      [\<lparr>s_pt = \<lparr>pt_x = 0, pt_y = 0\<rparr>, s_t = 0\<rparr>, \<lparr>s_pt = \<lparr>pt_x = 1, pt_y = 0\<rparr>, s_t = 25000000\<rparr>]
     = [\<lparr>dstX = 1, dstY = 0, alpha = 4\<rparr>, \<lparr>dstX = 0, dstY = 0, alpha = 5\<rparr>]
   \<and> clamp_real
        (real (unat (gTrailMaxAlpha (default_config\<lparr>gSensitivity := 1, gTrailMaxAlpha := 11\<rparr>)))
           * max 0 (1 - (25 + 25 * 0 * (1 / 10))
                          / gTrailFadeMs (default_config\<lparr>gSensitivity := 1, gTrailMaxAlpha := 11\<rparr>))
           * clamp_real (1 * gSensitivity (default_config\<lparr>gSensitivity := 1, gTrailMaxAlpha := 11\<rparr>)) 0 1)
        0 255 = 11 / 2
   \<and> real (unat (5 :: BYTE)) \<noteq> 11 / 2
   \<and> trail_blends (default_config\<lparr>gSensitivity := 1, gTrailMaxAlpha := 15\<rparr>)
      \<lparr>hCur = 9, width = 32, height = 32, hotX = 0, hotY = 0\<rparr>
      \<lparr>rc_left = 0, rc_top = 0, rc_right = 1920, rc_bottom = 1080\<rparr>
      40000000
      [\<lparr>s_pt = \<lparr>pt_x = 0, pt_y = 0\<rparr>, s_t = 0\<rparr>, \<lparr>s_pt = \<lparr>pt_x = 1, pt_y = 0\<rparr>, s_t = 40000000\<rparr>]
     = []
   \<and> clamp_real
        (real (unat (gTrailMaxAlpha (default_config\<lparr>gSensitivity := 1, gTrailMaxAlpha := 15\<rparr>)))
           * max 0 (1 - (40 + 40 * 0 * (1 / 10))
                          / gTrailFadeMs (default_config\<lparr>gSensitivity := 1, gTrailMaxAlpha := 15\<rparr>))
           * clamp_real (1 * gSensitivity (default_config\<lparr>gSensitivity := 1, gTrailMaxAlpha := 15\<rparr>)) 0 1)
        0 255 = 3"
proof (intro conjI)
  show "trail_blends (default_config\<lparr>gSensitivity := 1, gTrailMaxAlpha := 11\<rparr>)
      \<lparr>hCur = 9, width = 32, height = 32, hotX = 0, hotY = 0\<rparr>
      \<lparr>rc_left = 0, rc_top = 0, rc_right = 1920, rc_bottom = 1080\<rparr>
      25000000
      [\<lparr>s_pt = \<lparr>pt_x = 0, pt_y = 0\<rparr>, s_t = 0\<rparr>, \<lparr>s_pt = \<lparr>pt_x = 1, pt_y = 0\<rparr>, s_t = 25000000\<rparr>]
     = [\<lparr>dstX = 1, dstY = 0, alpha = 4\<rparr>, \<lparr>dstX = 0, dstY = 0, alpha = 5\<rparr>]"
    by (simp add: trail_blends_def pair_blends_def unit_pair age0_vals cfg_fields step_blend_cases
        step_t_1 alpha_11_25_1 alpha_11_25_0 f32_small lround_small wrap32_def)
  show "trail_blends (default_config\<lparr>gSensitivity := 1, gTrailMaxAlpha := 15\<rparr>)
      \<lparr>hCur = 9, width = 32, height = 32, hotX = 0, hotY = 0\<rparr>
      \<lparr>rc_left = 0, rc_top = 0, rc_right = 1920, rc_bottom = 1080\<rparr>
      40000000
      [\<lparr>s_pt = \<lparr>pt_x = 0, pt_y = 0\<rparr>, s_t = 0\<rparr>, \<lparr>s_pt = \<lparr>pt_x = 1, pt_y = 0\<rparr>, s_t = 40000000\<rparr>]
     = []"
    by (simp add: trail_blends_def pair_blends_def unit_pair age0_vals cfg_fields step_blend_cases
        step_t_1 alpha_15_40_1 alpha_15_40_0 f32_small lround_small wrap32_def)
qed (simp_all add: cfg_fields clamp_real_def)

lemma cfg1_fields:
  "gSensitivity (default_config\<lparr>gSensitivity := a\<rparr>) = a"
  "gTrailFadeMs (default_config\<lparr>gSensitivity := a\<rparr>) = 50"
  "gTrailMaxAlpha (default_config\<lparr>gSensitivity := a\<rparr>) = 10"
  by (simp_all add: default_config_def)

lemma fade_0: "gTrailFadeMs cfg = 50 \<Longrightarrow> step_fade cfg 0 t = 1"
  by (simp add: step_fade_def f32_small)

lemma alpha_10_0: "step_alpha (default_config\<lparr>gSensitivity := 1\<rparr>) 0 1 t = 10"
  by (simp add: step_alpha_def step_alpha_real_def fade_0 speed_factor_def cfg1_fields
      clamp_real_def float_eval)

lemma up_pair:
  "pair_dx \<lparr>s_pt = \<lparr>pt_x = 1, pt_y = 0\<rparr>, s_t = a\<rparr> \<lparr>s_pt = \<lparr>pt_x = 1, pt_y = 1\<rparr>, s_t = b\<rparr> = 0"
  "pair_dy \<lparr>s_pt = \<lparr>pt_x = 1, pt_y = 0\<rparr>, s_t = a\<rparr> \<lparr>s_pt = \<lparr>pt_x = 1, pt_y = 1\<rparr>, s_t = b\<rparr> = 1"
  "pair_distSq \<lparr>s_pt = \<lparr>pt_x = 1, pt_y = 0\<rparr>, s_t = a\<rparr> \<lparr>s_pt = \<lparr>pt_x = 1, pt_y = 1\<rparr>, s_t = b\<rparr> = 1"
  "pair_dist \<lparr>s_pt = \<lparr>pt_x = 1, pt_y = 0\<rparr>, s_t = a\<rparr> \<lparr>s_pt = \<lparr>pt_x = 1, pt_y = 1\<rparr>, s_t = b\<rparr> = 1"
  "pair_steps \<lparr>s_pt = \<lparr>pt_x = 1, pt_y = 0\<rparr>, s_t = a\<rparr> \<lparr>s_pt = \<lparr>pt_x = 1, pt_y = 1\<rparr>, s_t = b\<rparr> = 1"
  by (simp_all add: pair_steps_def pair_dist_def pair_distSq_def pair_dx_def pair_dy_def wrap32_def f32_small)

lemma age0_zero: "pair_age0 0 \<lparr>s_pt = p, s_t = 0\<rparr> = 0"
  by (simp add: pair_age0_def age_ms_def trunc_div_def f32_small)

lemma pair_blends_right:
  "pair_blends (default_config\<lparr>gSensitivity := 1\<rparr>)
      \<lparr>hCur = 9, width = 32, height = 32, hotX = 0, hotY = 0\<rparr>
      \<lparr>rc_left = 0, rc_top = 0, rc_right = 1920, rc_bottom = 1080\<rparr>
      0 \<lparr>s_pt = \<lparr>pt_x = 0, pt_y = 0\<rparr>, s_t = 0\<rparr> \<lparr>s_pt = \<lparr>pt_x = 1, pt_y = 0\<rparr>, s_t = 0\<rparr>
     = [\<lparr>dstX = 1, dstY = 0, alpha = 10\<rparr>, \<lparr>dstX = 0, dstY = 0, alpha = 10\<rparr>]"
  by (simp add: pair_blends_def unit_pair age0_zero cfg1_fields step_blend_cases
      step_t_1 alpha_10_0 f32_small lround_small wrap32_def)

lemma pair_blends_up:
  "pair_blends (default_config\<lparr>gSensitivity := 1\<rparr>)
      \<lparr>hCur = 9, width = 32, height = 32, hotX = 0, hotY = 0\<rparr>
      \<lparr>rc_left = 0, rc_top = 0, rc_right = 1920, rc_bottom = 1080\<rparr>
      0 \<lparr>s_pt = \<lparr>pt_x = 1, pt_y = 0\<rparr>, s_t = 0\<rparr> \<lparr>s_pt = \<lparr>pt_x = 1, pt_y = 1\<rparr>, s_t = 0\<rparr>
     = [\<lparr>dstX = 1, dstY = 1, alpha = 10\<rparr>, \<lparr>dstX = 1, dstY = 0, alpha = 10\<rparr>]"
  by (simp add: pair_blends_def up_pair age0_zero cfg1_fields step_blend_cases
      step_t_1 alpha_10_0 f32_small lround_small wrap32_def)

text \<open>
  A pair of age 0 at distance 1 with sensitivity 1, whose two steps blend with alpha 10, and
  a step with fade 0 (age 50 ms at a fade of 50 ms), which issues no blend.
\<close>

theorem step_alpha_spec_witness:
  "pair_blends (default_config\<lparr>gSensitivity := 1\<rparr>)
      \<lparr>hCur = 9, width = 32, height = 32, hotX = 0, hotY = 0\<rparr>
      \<lparr>rc_left = 0, rc_top = 0, rc_right = 1920, rc_bottom = 1080\<rparr>
      0 \<lparr>s_pt = \<lparr>pt_x = 0, pt_y = 0\<rparr>, s_t = 0\<rparr> \<lparr>s_pt = \<lparr>pt_x = 1, pt_y = 0\<rparr>, s_t = 0\<rparr>
     = [\<lparr>dstX = 1, dstY = 0, alpha = 10\<rparr>, \<lparr>dstX = 0, dstY = 0, alpha = 10\<rparr>]
   \<and> step_blend (default_config\<lparr>gSensitivity := 1\<rparr>)
        \<lparr>hCur = 9, width = 32, height = 32, hotX = 0, hotY = 0\<rparr>
        \<lparr>rc_left = 0, rc_top = 0, rc_right = 1920, rc_bottom = 1080\<rparr>
        \<lparr>s_pt = \<lparr>pt_x = 0, pt_y = 0\<rparr>, s_t = 0\<rparr> 1 0 0 1 1 1
       = [\<lparr>dstX = 1, dstY = 0, alpha = 10\<rparr>]
   \<and> alpha \<lparr>dstX = 1, dstY = 0, alpha = 10\<rparr>
       = step_alpha (default_config\<lparr>gSensitivity := 1\<rparr>) 0 1 (step_t 1 1)
   \<and> uint (step_alpha (default_config\<lparr>gSensitivity := 1\<rparr>) 0 1 1) = 10
   \<and> step_alpha default_config 50 100 0 = 0
   \<and> step_blend default_config \<lparr>hCur = 9, width = 32, height = 32, hotX = 0, hotY = 0\<rparr>
        \<lparr>rc_left = 0, rc_top = 0, rc_right = 1920, rc_bottom = 1080\<rparr>
        \<lparr>s_pt = \<lparr>pt_x = 0, pt_y = 0\<rparr>, s_t = 0\<rparr> 100 0 50 100 100 0 = []"
proof -
  let ?cfg = "default_config\<lparr>gSensitivity := 1\<rparr>"
  let ?cv = "\<lparr>hCur = 9, width = 32, height = 32, hotX = 0, hotY = 0\<rparr>"
  let ?vs = "\<lparr>rc_left = 0, rc_top = 0, rc_right = 1920, rc_bottom = 1080\<rparr>"
  let ?s0 = "\<lparr>s_pt = \<lparr>pt_x = 0, pt_y = 0\<rparr>, s_t = 0\<rparr>"
  let ?s1 = "\<lparr>s_pt = \<lparr>pt_x = 1, pt_y = 0\<rparr>, s_t = 0\<rparr>"
  note a = step_alpha_spec [where cfg = ?cfg and cv = ?cv and vs = ?vs and now = 0 and ?s0.0 = ?s0
      and ?s1.0 = ?s1 and dx = 1 and dy = 0 and ?age0.0 = 0 and d = 1 and steps = 1 and j = 1 and t = 1]
  note b = step_alpha_spec [where cfg = default_config and cv = ?cv and vs = ?vs and now = 0
      and ?s0.0 = ?s0 and ?s1.0 = ?s1 and dx = 100 and dy = 0 and ?age0.0 = 50 and d = 100
      and steps = 100 and j = 0 and t = 0]
  have sb: "step_blend ?cfg ?cv ?vs ?s0 1 0 0 1 1 1 = [\<lparr>dstX = 1, dstY = 0, alpha = 10\<rparr>]"
    by (simp add: step_blend_cases step_t_1 alpha_10_0 f32_small lround_small wrap32_def)
  then have mem: "\<lparr>dstX = 1, dstY = 0, alpha = 10\<rparr> \<in> set (step_blend ?cfg ?cv ?vs ?s0 1 0 0 1 1 1)"
    by simp
  from a mem have al: "alpha \<lparr>dstX = 1, dstY = 0, alpha = 10\<rparr> = step_alpha ?cfg 0 1 (step_t 1 1)"
    by blast
  from a have "uint (step_alpha ?cfg 0 1 1) =
        \<lfloor>clamp_real
           (f32 (f32 (real (unat (gTrailMaxAlpha ?cfg))
                      * max 0 (f32 (1 - f32 (f32 (0 + f32 (f32 (0 * 1) * f32 (1 / 10)))
                                              / gTrailFadeMs ?cfg))))
                 * clamp_real (f32 (1 * gSensitivity ?cfg)) 0 1))
           0 255\<rfloor>"
    by blast
  then have u: "uint (step_alpha ?cfg 0 1 1) = 10"
    by (simp add: cfg1_fields f32_small clamp_real_def float_eval)
  have fz: "max 0 (f32 (1 - f32 (f32 (50 + f32 (f32 (50 * 0) * f32 (1 / 10))) / gTrailFadeMs default_config))) = 0"
    by (simp add: default_config_def float_eval)
  have tz: "(0 :: real) = step_t 100 0" by (simp add: step_t_def f32_small)
  from b fz have z1: "step_alpha default_config 50 100 0 = 0" by blast
  from b fz tz have z2: "step_blend default_config ?cv ?vs ?s0 100 0 50 100 100 0 = []" by blast
  from pair_blends_right sb al u z1 z2 show ?thesis by blast
qed

lemma draw_loop_concat:
  "draw_loop body trail k = concat (map (\<lambda>i. body (trail ! i) (trail ! Suc i)) (rev [0..<k]))"
  by (induction k) simp_all

lemma trail_blends_three:
  "trail_blends cfg cv vs now [s0, s1, s2]
     = pair_blends cfg cv vs now s1 s2 @ pair_blends cfg cv vs now s0 s1"
  by (simp add: trail_blends_def numeral_2_eq_2)

text \<open>
  Claim C5 does not hold of the code: the outer loop runs from the newest pair down to the
  oldest, so the blend calls of a frame are those of the newest pair first and those of
  the oldest pair last. For three samples, the calls of the pair of \<open>s1\<close> and \<open>s2\<close>
  precede those of the pair of \<open>s0\<close> and \<open>s1\<close>. The comment above the loop says that
  samples are drawn from oldest to newest.
\<close>

theorem trail_blends_newest_pair_first:
  "trail_blends cfg cv vs now trail
     = concat (map (\<lambda>i. pair_blends cfg cv vs now (trail ! i) (trail ! Suc i))
                (rev [0..<length trail - 1]))
   \<and> trail_blends cfg cv vs now [s0, s1, s2]
     = pair_blends cfg cv vs now s1 s2 @ pair_blends cfg cv vs now s0 s1
   \<and> trail_blends (default_config\<lparr>gSensitivity := 1\<rparr>)
      \<lparr>hCur = 9, width = 32, height = 32, hotX = 0, hotY = 0\<rparr>
      \<lparr>rc_left = 0, rc_top = 0, rc_right = 1920, rc_bottom = 1080\<rparr>
      0
      [\<lparr>s_pt = \<lparr>pt_x = 0, pt_y = 0\<rparr>, s_t = 0\<rparr>, \<lparr>s_pt = \<lparr>pt_x = 1, pt_y = 0\<rparr>, s_t = 0\<rparr>,
       \<lparr>s_pt = \<lparr>pt_x = 1, pt_y = 1\<rparr>, s_t = 0\<rparr>]
     = [\<lparr>dstX = 1, dstY = 1, alpha = 10\<rparr>, \<lparr>dstX = 1, dstY = 0, alpha = 10\<rparr>,
        \<lparr>dstX = 1, dstY = 0, alpha = 10\<rparr>, \<lparr>dstX = 0, dstY = 0, alpha = 10\<rparr>]
   \<and> pair_blends (default_config\<lparr>gSensitivity := 1\<rparr>)
      \<lparr>hCur = 9, width = 32, height = 32, hotX = 0, hotY = 0\<rparr>
      \<lparr>rc_left = 0, rc_top = 0, rc_right = 1920, rc_bottom = 1080\<rparr>
      0 \<lparr>s_pt = \<lparr>pt_x = 1, pt_y = 0\<rparr>, s_t = 0\<rparr> \<lparr>s_pt = \<lparr>pt_x = 1, pt_y = 1\<rparr>, s_t = 0\<rparr>
     = [\<lparr>dstX = 1, dstY = 1, alpha = 10\<rparr>, \<lparr>dstX = 1, dstY = 0, alpha = 10\<rparr>]
   \<and> pair_blends (default_config\<lparr>gSensitivity := 1\<rparr>)
      \<lparr>hCur = 9, width = 32, height = 32, hotX = 0, hotY = 0\<rparr>
      \<lparr>rc_left = 0, rc_top = 0, rc_right = 1920, rc_bottom = 1080\<rparr>
      0 \<lparr>s_pt = \<lparr>pt_x = 0, pt_y = 0\<rparr>, s_t = 0\<rparr> \<lparr>s_pt = \<lparr>pt_x = 1, pt_y = 0\<rparr>, s_t = 0\<rparr>
     = [\<lparr>dstX = 1, dstY = 0, alpha = 10\<rparr>, \<lparr>dstX = 0, dstY = 0, alpha = 10\<rparr>]"
proof -
  have general: "trail_blends cfg cv vs now trail
     = concat (map (\<lambda>i. pair_blends cfg cv vs now (trail ! i) (trail ! Suc i))
                (rev [0..<length trail - 1]))"
    unfolding trail_blends_def by (rule draw_loop_concat)
  show ?thesis
    unfolding trail_blends_three
    by (intro conjI general [unfolded trail_blends_three])
      (simp_all add: pair_blends_right pair_blends_up)
qed

section \<open>Properties of the tint cache\<close>

lemma DrawTrail_rebuilt_iff:
  "dr_rebuilt (snd (snd (DrawTrail cfg env tmp cache cv trail vs))) \<longleftrightarrow>
     fst (EnsureSize env tmp (width cv) (height cv)) \<and> need_rebuild cache cv"
  by (simp add: DrawTrail_def Let_def split: prod.splits)

lemma DrawTrail_tinted_iff:
  "dr_tinted (snd (snd (DrawTrail cfg env tmp cache cv trail vs))) \<longleftrightarrow>
     dr_rebuilt (snd (snd (DrawTrail cfg env tmp cache cv trail vs))) \<and> tint_CreateDIBSection env"
  by (simp add: DrawTrail_def Let_def split: prod.splits)

text \<open>The scratch surface and the tint cache once a frame with cursor visual \<open>cv\<close> has been drawn.\<close>

lemma DrawTrail_stable:
  assumes "tmp_memDC tmp" and "tmp_dib tmp"
    and "tmp_w tmp = (if width cv \<le> 0 \<or> height cv \<le> 0 then 1 else width cv)"
    and "tmp_h tmp = (if width cv \<le> 0 \<or> height cv \<le> 0 then 1 else height cv)"
    and "sTintDC cache" and "sTintBMP cache \<noteq> None"
    and "sLastCursor cache = hCur cv" and "sLastW cache = width cv" and "sLastH cache = height cv"
  shows "DrawTrail cfg env tmp cache cv trail vs =
           (tmp, cache, \<lparr>dr_rebuilt = False, dr_tinted = False,
                          dr_blends = trail_blends cfg cv vs (draw_now env) trail,
                          dr_presented = True\<rparr>)"
  using assms by (simp add: DrawTrail_def EnsureSize_def need_rebuild_def Let_def)

lemma count_rebuilds_stable:
  assumes "tmp_memDC tmp" and "tmp_dib tmp"
    and "tmp_w tmp = (if width cv \<le> 0 \<or> height cv \<le> 0 then 1 else width cv)"
    and "tmp_h tmp = (if width cv \<le> 0 \<or> height cv \<le> 0 then 1 else height cv)"
    and "sTintDC cache" and "sTintBMP cache \<noteq> None"
    and "sLastCursor cache = hCur cv" and "sLastW cache = width cv" and "sLastH cache = height cv"
    and "\<forall>f \<in> set frames. fst (snd f) = cv"
  shows "count_rebuilds cfg tmp cache frames = 0"
  using assms(10)
proof (induction frames)
  case Nil
  show ?case by simp
next
  case (Cons f frames)
  obtain env cv' trail vs where f: "f = (env, cv', trail, vs)" by (cases f) auto
  with Cons.prems have cv': "cv' = cv" by simp
  have d: "DrawTrail cfg env tmp cache cv trail vs =
           (tmp, cache, \<lparr>dr_rebuilt = False, dr_tinted = False,
                          dr_blends = trail_blends cfg cv vs (draw_now env) trail,
                          dr_presented = True\<rparr>)"
    using assms(1-9) by (rule DrawTrail_stable)
  have "count_rebuilds cfg tmp cache frames = 0" using Cons by simp
  then show ?case by (simp add: f cv' d)
qed

lemma DrawTrail_first:
  assumes "tmp_CreateDIBSection env" and "tmp_CreateCompatibleDC env"
    and "tint_CreateCompatibleDC env" and "tint_CreateDIBSection env"
  shows "DrawTrail cfg env initial_TempIconSurf initial_TintCache cv trail vs =
           (\<lparr>tmp_memDC = True, tmp_dib = True,
             tmp_w = (if width cv \<le> 0 \<or> height cv \<le> 0 then 1 else width cv),
             tmp_h = (if width cv \<le> 0 \<or> height cv \<le> 0 then 1 else height cv)\<rparr>,
            \<lparr>sLastCursor = hCur cv, sLastW = width cv, sLastH = height cv, sTintDC = True,
             sTintBMP = Some (tint_loop cfg (pixel_count cv) (DrawIconEx env))\<rparr>,
            \<lparr>dr_rebuilt = True, dr_tinted = True,
             dr_blends = trail_blends cfg cv vs (draw_now env) trail, dr_presented = True\<rparr>)"
  using assms
  by (simp add: DrawTrail_def EnsureSize_def need_rebuild_def Let_def initial_TempIconSurf_def
      initial_TintCache_def)

text \<open>
  Claim C7, amended. A \<^verbatim>\<open>DrawTrail\<close> call enters the rebuild of the tinted bitmap exactly
  when the scratch surface could be ensured and the tinted bitmap or its device context is
  missing or the cursor handle, width or height differs from the cached key. The per-pixel
  tint loop runs exactly when the rebuild is entered and its bitmap allocation succeeds.
  From the initial state, when the allocations of the first frame succeed and all frames
  show the same cursor visual, exactly one call rebuilds, the first.
\<close>

theorem tint_cache_rebuild:
  "(dr_rebuilt (snd (snd (DrawTrail cfg env tmp cache cv trail vs))) \<longleftrightarrow>
      fst (EnsureSize env tmp (width cv) (height cv)) \<and>
      (sTintBMP cache = None \<or> \<not> sTintDC cache \<or> hCur cv \<noteq> sLastCursor cache \<or>
       width cv \<noteq> sLastW cache \<or> height cv \<noteq> sLastH cache))
   \<and> (dr_tinted (snd (snd (DrawTrail cfg env tmp cache cv trail vs))) \<longleftrightarrow>
      dr_rebuilt (snd (snd (DrawTrail cfg env tmp cache cv trail vs))) \<and> tint_CreateDIBSection env)
   \<and> (tmp_CreateDIBSection env \<and> tmp_CreateCompatibleDC env \<and>
       tint_CreateCompatibleDC env \<and> tint_CreateDIBSection env \<and>
       (\<forall>f \<in> set frames. fst (snd f) = cv) \<longrightarrow>
       dr_rebuilt (snd (snd (DrawTrail cfg env initial_TempIconSurf initial_TintCache cv trail vs))) \<and>
       count_rebuilds cfg initial_TempIconSurf initial_TintCache ((env, cv, trail, vs) # frames) = 1)"
proof (intro conjI impI)
  show "dr_rebuilt (snd (snd (DrawTrail cfg env tmp cache cv trail vs))) \<longleftrightarrow>
      fst (EnsureSize env tmp (width cv) (height cv)) \<and>
      (sTintBMP cache = None \<or> \<not> sTintDC cache \<or> hCur cv \<noteq> sLastCursor cache \<or>
       width cv \<noteq> sLastW cache \<or> height cv \<noteq> sLastH cache)"
    using DrawTrail_rebuilt_iff [of cfg env tmp cache cv trail vs]
    by (simp only: need_rebuild_def)
  show "dr_tinted (snd (snd (DrawTrail cfg env tmp cache cv trail vs))) \<longleftrightarrow>
      dr_rebuilt (snd (snd (DrawTrail cfg env tmp cache cv trail vs))) \<and> tint_CreateDIBSection env"
    by (rule DrawTrail_tinted_iff)
next
  assume h: "tmp_CreateDIBSection env \<and> tmp_CreateCompatibleDC env \<and>
       tint_CreateCompatibleDC env \<and> tint_CreateDIBSection env \<and>
       (\<forall>f \<in> set frames. fst (snd f) = cv)"
  let ?tmp1 = "\<lparr>tmp_memDC = True, tmp_dib = True,
             tmp_w = (if width cv \<le> 0 \<or> height cv \<le> 0 then 1 else width cv),
             tmp_h = (if width cv \<le> 0 \<or> height cv \<le> 0 then 1 else height cv)\<rparr>"
  let ?cache1 = "\<lparr>sLastCursor = hCur cv, sLastW = width cv, sLastH = height cv, sTintDC = True,
             sTintBMP = Some (tint_loop cfg (pixel_count cv) (DrawIconEx env))\<rparr>"
  have first: "DrawTrail cfg env initial_TempIconSurf initial_TintCache cv trail vs =
      (?tmp1, ?cache1, \<lparr>dr_rebuilt = True, dr_tinted = True,
             dr_blends = trail_blends cfg cv vs (draw_now env) trail, dr_presented = True\<rparr>)"
    using h by (intro DrawTrail_first) simp_all
  then show "dr_rebuilt (snd (snd (DrawTrail cfg env initial_TempIconSurf initial_TintCache cv trail vs)))"
    by simp
  have rest: "count_rebuilds cfg ?tmp1 ?cache1 frames = 0"
    using h by (intro count_rebuilds_stable [where cv = cv]) simp_all
  show "count_rebuilds cfg initial_TempIconSurf initial_TintCache ((env, cv, trail, vs) # frames) = 1"
    by (simp add: first rest)
qed

text \<open>
  Claim C7, as stated, fails: the rebuild block stores the key before it allocates, so
  after a frame whose bitmap allocation failed the key equals the cursor's handle and
  size, and the next frame rebuilds all the same because the bitmap is missing. The same
  cursor over these two frames is rebuilt twice.
\<close>

theorem tint_cache_rebuild_counterexample:
  "DrawTrail default_config
      \<lparr>tmp_CreateDIBSection = True, tmp_CreateCompatibleDC = True, tint_CreateCompatibleDC = True,
       tint_CreateDIBSection = False, DrawIconEx = [], draw_now = 0\<rparr>
      initial_TempIconSurf initial_TintCache
      \<lparr>hCur = 9, width = 32, height = 32, hotX = 0, hotY = 0\<rparr>
      [\<lparr>s_pt = \<lparr>pt_x = 0, pt_y = 0\<rparr>, s_t = 0\<rparr>]
      \<lparr>rc_left = 0, rc_top = 0, rc_right = 1920, rc_bottom = 1080\<rparr>
     = (\<lparr>tmp_memDC = True, tmp_dib = True, tmp_w = 32, tmp_h = 32\<rparr>,
        \<lparr>sLastCursor = 9, sLastW = 32, sLastH = 32, sTintDC = True, sTintBMP = None\<rparr>,
        \<lparr>dr_rebuilt = True, dr_tinted = False, dr_blends = [], dr_presented = False\<rparr>)
   \<and> sLastCursor \<lparr>sLastCursor = 9, sLastW = 32, sLastH = 32, sTintDC = True, sTintBMP = None\<rparr>
       = hCur \<lparr>hCur = 9, width = 32, height = 32, hotX = 0, hotY = 0\<rparr>
   \<and> sLastW \<lparr>sLastCursor = 9, sLastW = 32, sLastH = 32, sTintDC = True, sTintBMP = None\<rparr>
       = width \<lparr>hCur = 9, width = 32, height = 32, hotX = 0, hotY = 0\<rparr>
   \<and> sLastH \<lparr>sLastCursor = 9, sLastW = 32, sLastH = 32, sTintDC = True, sTintBMP = None\<rparr>
       = height \<lparr>hCur = 9, width = 32, height = 32, hotX = 0, hotY = 0\<rparr>
   \<and> dr_rebuilt (snd (snd (DrawTrail default_config
      \<lparr>tmp_CreateDIBSection = True, tmp_CreateCompatibleDC = True, tint_CreateCompatibleDC = True,
       tint_CreateDIBSection = True, DrawIconEx = [], draw_now = 16000000\<rparr>
      \<lparr>tmp_memDC = True, tmp_dib = True, tmp_w = 32, tmp_h = 32\<rparr>
      \<lparr>sLastCursor = 9, sLastW = 32, sLastH = 32, sTintDC = True, sTintBMP = None\<rparr>
      \<lparr>hCur = 9, width = 32, height = 32, hotX = 0, hotY = 0\<rparr>
      [\<lparr>s_pt = \<lparr>pt_x = 0, pt_y = 0\<rparr>, s_t = 0\<rparr>]
      \<lparr>rc_left = 0, rc_top = 0, rc_right = 1920, rc_bottom = 1080\<rparr>)))
   \<and> count_rebuilds default_config initial_TempIconSurf initial_TintCache
       [(\<lparr>tmp_CreateDIBSection = True, tmp_CreateCompatibleDC = True, tint_CreateCompatibleDC = True,
          tint_CreateDIBSection = False, DrawIconEx = [], draw_now = 0\<rparr>,
         \<lparr>hCur = 9, width = 32, height = 32, hotX = 0, hotY = 0\<rparr>,
         [\<lparr>s_pt = \<lparr>pt_x = 0, pt_y = 0\<rparr>, s_t = 0\<rparr>],
         \<lparr>rc_left = 0, rc_top = 0, rc_right = 1920, rc_bottom = 1080\<rparr>),
        (\<lparr>tmp_CreateDIBSection = True, tmp_CreateCompatibleDC = True, tint_CreateCompatibleDC = True,
          tint_CreateDIBSection = True, DrawIconEx = [], draw_now = 16000000\<rparr>,
         \<lparr>hCur = 9, width = 32, height = 32, hotX = 0, hotY = 0\<rparr>,
         [\<lparr>s_pt = \<lparr>pt_x = 0, pt_y = 0\<rparr>, s_t = 0\<rparr>],
         \<lparr>rc_left = 0, rc_top = 0, rc_right = 1920, rc_bottom = 1080\<rparr>)]
       = 2"
  by (simp add: DrawTrail_def EnsureSize_def need_rebuild_def initial_TempIconSurf_def
      initial_TintCache_def trail_blends_def)

text \<open>
  One hundred frames with the same cursor: one rebuild.
\<close>

theorem tint_cache_rebuild_witness:
  "count_rebuilds default_config initial_TempIconSurf initial_TintCache
     ((\<lparr>tmp_CreateDIBSection = True, tmp_CreateCompatibleDC = True, tint_CreateCompatibleDC = True,
        tint_CreateDIBSection = True, DrawIconEx = [], draw_now = 0\<rparr>,
       \<lparr>hCur = 9, width = 32, height = 32, hotX = 0, hotY = 0\<rparr>,
       [\<lparr>s_pt = \<lparr>pt_x = 0, pt_y = 0\<rparr>, s_t = 0\<rparr>],
       \<lparr>rc_left = 0, rc_top = 0, rc_right = 1920, rc_bottom = 1080\<rparr>)
      # replicate 99
         (\<lparr>tmp_CreateDIBSection = True, tmp_CreateCompatibleDC = True, tint_CreateCompatibleDC = True,
           tint_CreateDIBSection = True, DrawIconEx = [], draw_now = 0\<rparr>,
          \<lparr>hCur = 9, width = 32, height = 32, hotX = 0, hotY = 0\<rparr>,
          [\<lparr>s_pt = \<lparr>pt_x = 0, pt_y = 0\<rparr>, s_t = 0\<rparr>],
          \<lparr>rc_left = 0, rc_top = 0, rc_right = 1920, rc_bottom = 1080\<rparr>))
     = 1
   \<and> length (replicate 99
         (\<lparr>tmp_CreateDIBSection = True, tmp_CreateCompatibleDC = True, tint_CreateCompatibleDC = True,
           tint_CreateDIBSection = True, DrawIconEx = [] :: pixel list, draw_now = 0\<rparr>,
          \<lparr>hCur = 9 :: nat, width = 32, height = 32, hotX = 0, hotY = 0\<rparr>,
          [\<lparr>s_pt = \<lparr>pt_x = 0, pt_y = 0\<rparr>, s_t = 0\<rparr>],
          \<lparr>rc_left = 0, rc_top = 0, rc_right = 1920, rc_bottom = 1080\<rparr>)) = 99"
  using tint_cache_rebuild [of default_config
      "\<lparr>tmp_CreateDIBSection = True, tmp_CreateCompatibleDC = True, tint_CreateCompatibleDC = True,
        tint_CreateDIBSection = True, DrawIconEx = [], draw_now = 0\<rparr>"
      initial_TempIconSurf initial_TintCache
      "\<lparr>hCur = 9, width = 32, height = 32, hotX = 0, hotY = 0\<rparr>"
      "[\<lparr>s_pt = \<lparr>pt_x = 0, pt_y = 0\<rparr>, s_t = 0\<rparr>]"
      "\<lparr>rc_left = 0, rc_top = 0, rc_right = 1920, rc_bottom = 1080\<rparr>"
      "replicate 99
         (\<lparr>tmp_CreateDIBSection = True, tmp_CreateCompatibleDC = True, tint_CreateCompatibleDC = True,
           tint_CreateDIBSection = True, DrawIconEx = [], draw_now = 0\<rparr>,
          \<lparr>hCur = 9, width = 32, height = 32, hotX = 0, hotY = 0\<rparr>,
          [\<lparr>s_pt = \<lparr>pt_x = 0, pt_y = 0\<rparr>, s_t = 0\<rparr>],
          \<lparr>rc_left = 0, rc_top = 0, rc_right = 1920, rc_bottom = 1080\<rparr>)"]
  by simp

section \<open>Properties of the launch arguments\<close>

lemma float_literals:
  "f32 (3 / 100) = 16106127 / 536870912"
  "f32 (1 / 1000) = 8589935 / 8589934592"
  "f32 (f64 0) = 0"
  by (simp_all add: float_eval)

text \<open>
  Claim C9 does not hold of the code: for the numeric options the value is converted by
  \<^verbatim>\<open>_wtof\<close> or \<^verbatim>\<open>_wtoi\<close>, which return 0 for text that is not a number, and the clamped
  result is stored. After \<^verbatim>\<open>sensitivity abc\<close> the sensitivity is the lower bound
  \<^verbatim>\<open>0.001f\<close> and not the default \<^verbatim>\<open>0.03f\<close>; after \<^verbatim>\<open>fade abc\<close> the fade is 1 and not
  50; after \<^verbatim>\<open>alpha abc\<close> the maximal alpha is 1 and not 10. The colour parser checks the
  result of its conversion and keeps the tint for \<^verbatim>\<open>color xyz\<close>.
\<close>

theorem unparsable_value_stored:
  "gSensitivity default_config = 16106127 / 536870912
   \<and> gSensitivity (parse_command_line default_config ''sensitivity abc'') = 8589935 / 8589934592
   \<and> f32 (3 / 100) = 16106127 / 536870912
   \<and> f32 (1 / 1000) = 8589935 / 8589934592
   \<and> gTrailFadeMs default_config = 50
   \<and> gTrailFadeMs (parse_command_line default_config ''fade abc'') = 1
   \<and> gTrailMaxAlpha default_config = 10
   \<and> gTrailMaxAlpha (parse_command_line default_config ''alpha abc'') = 1
   \<and> parse_command_line default_config ''color xyz'' = default_config"
  by (simp add: parse_command_line_def parse_token_def ParseCommandValue_def wcsicmp_eq_def
      trimmed_def to_lower_def store_sensitivity_def store_fade_def store_alpha_def
      store_color_def wtof_def wtoi_def scan_hex_def scan_sign_def is_space_def digit_of_def
      hex_digit_of_def clamp_real_def clamp_int_def default_config_def float_literals)

end
